
theory Spec2Isabelle
  imports Complex_Main "HOL-Library.Multiset"
begin

section \<open>Values of the notebook\<close>

text \<open>
  The notebook \<^verbatim>\<open>3-preliminary-modelling.ipynb\<close> is a sequence of cells, each a few
  expressions over pandas, SciPy and scikit-learn objects. Every expression is embedded as
  a function on the value it reads; an exception that the expression can raise is a value
  of \<open>py_error\<close> on the left of a sum.
\<close>

datatype py_error = KeyError | AttributeError | ValueError | NameError | IndexError

text \<open>
  A cell of the pickled severity frame. The column is of object dtype: a severity string,
  a missing value, or some other scalar left by the preprocessing stage.
\<close>

datatype cell = Str string | Num int | NaN

text \<open>
  A frame of labels or of indicator values: its columns in order, each a label and the
  column's values. Column labels of a pickled frame are distinct, and \<open>map_of\<close> reads a
  column by its label.
\<close>

type_synonym 'a frame = "(string \<times> 'a list) list"

section \<open>Label binarizer\<close>

text \<open>
  \<^verbatim>\<open>y_train = (y_train == 'Fatal').astype('int').cm_highestinjury\<close>

  Three steps: the elementwise comparison of the frame with a scalar, the cast of the
  boolean frame to integers, and the attribute access that selects the column
  \<^verbatim>\<open>cm_highestinjury\<close> (an \<^verbatim>\<open>AttributeError\<close> when the frame has no such column).
\<close>

definition eq_scalar :: "cell frame \<Rightarrow> cell \<Rightarrow> bool frame" where
  "eq_scalar df v = map (\<lambda>(name, column). (name, map (\<lambda>c. c = v) column)) df"

definition astype_int :: "bool frame \<Rightarrow> int frame" where
  "astype_int df = map (\<lambda>(name, column). (name, map (\<lambda>b. if b then 1 else 0) column)) df"

definition getattr_column :: "'a frame \<Rightarrow> string \<Rightarrow> py_error + 'a list" where
  "getattr_column df name =
     (case map_of df name of None \<Rightarrow> Inl AttributeError | Some column \<Rightarrow> Inr column)"

definition binarize :: "cell frame \<Rightarrow> py_error + int list" where
  "binarize y = getattr_column (astype_int (eq_scalar y (Str ''Fatal''))) ''cm_highestinjury''"

section \<open>Baseline estimator\<close>

text \<open>
  \<^verbatim>\<open>print(f'The baseline accuracy is {y_test.value_counts(normalize=True)[0]}')\<close>

  \<^verbatim>\<open>value_counts(normalize=True)\<close> is a series indexed by the distinct values of
  \<^verbatim>\<open>y_test\<close>, most frequent first, holding \<^verbatim>\<open>count / total\<close>. Its index is an integer
  index, so \<^verbatim>\<open>[0]\<close> reads the entry whose label is \<open>0\<close> (not the first entry), and
  raises \<^verbatim>\<open>KeyError\<close> when no entry has that label. The quotient of the two counts is a
  float64; it is modelled by the real number it rounds.
\<close>

definition unique :: "'a list \<Rightarrow> 'a list" where
  "unique ys = rev (remdups (rev ys))"

definition value_counts_normalize :: "int list \<Rightarrow> (int \<times> real) list" where
  "value_counts_normalize ys =
     map (\<lambda>v. (v, real (count_list ys v) / real (length ys)))
       (sort_key (\<lambda>v. - int (count_list ys v)) (unique ys))"

definition getitem :: "(int \<times> real) list \<Rightarrow> int \<Rightarrow> py_error + real" where
  "getitem series label =
     (case map_of series label of None \<Rightarrow> Inl KeyError | Some x \<Rightarrow> Inr x)"

definition baseline :: "int list \<Rightarrow> py_error + real" where
  "baseline y_test = getitem (value_counts_normalize y_test) 0"

text \<open>
  The baseline as the notebook's own comment (\<^verbatim>\<open># Checking the majority class\<close>) and the
  specification word it: the share of the more frequent of the two label values.
\<close>

definition spec_majority_proportion :: "int list \<Rightarrow> real" where
  "spec_majority_proportion ys =
     real (max (count_list ys 0) (count_list ys 1)) / real (length ys)"

section \<open>Sparsifier\<close>

text \<open>
  \<^verbatim>\<open>X_train_sparse = X_train_tfidf.astype(pd.SparseDtype("float64",0)).sparse.to_coo()\<close>

  A cell of a dense feature frame is a float64 number or an int64 integer, and \<open>value_of\<close>
  is the number it denotes. A float64 value is modelled by the real number it denotes; NaN,
  the infinities and the sign of zero are outside the model.

  \<open>astype_float64\<close> is the cast of one cell that \<^verbatim>\<open>astype\<close> performs: the identity on a
  float64 cell, and on an integer the nearest float64, ties to the even significand. A
  float64 has 53 significant bits: \<open>float64_of_nat\<close> drops the bits of the magnitude below
  the leading 53 and rounds (\<open>bit_length\<close> is the number of bits of the magnitude). An
  int64 magnitude is below \<open>2^63\<close>, so the cast never overflows.
\<close>

datatype dcell = Float64 real | Int64 int

fun value_of :: "dcell \<Rightarrow> real" where
  "value_of (Float64 x) = x"
| "value_of (Int64 i) = real_of_int i"

fun bit_length :: "nat \<Rightarrow> nat" where
  "bit_length n = (if n = 0 then 0 else Suc (bit_length (n div 2)))"

declare bit_length.simps [simp del]

definition round_half_even :: "nat \<Rightarrow> nat \<Rightarrow> nat" where
  "round_half_even n e =
     (let q = n div 2 ^ e; r = n mod 2 ^ e
      in if 2 ^ e < 2 * r \<or> (2 * r = 2 ^ e \<and> odd q) then q + 1 else q)"

definition float64_of_nat :: "nat \<Rightarrow> real" where
  "float64_of_nat n = (let e = bit_length n - 53 in real (round_half_even n e * 2 ^ e))"

definition float64_of_int :: "int \<Rightarrow> real" where
  "float64_of_int i = (if i < 0 then - float64_of_nat (nat (- i)) else float64_of_nat (nat i))"

fun astype_float64 :: "dcell \<Rightarrow> real" where
  "astype_float64 (Float64 x) = x"
| "astype_float64 (Int64 i) = float64_of_int i"

text \<open>
  A dense feature frame is its number of rows and its columns in order, each a name and
  the column's cells (pandas stores a frame by columns). \<open>wf_dframe\<close> says that every
  column has one cell per row, and \<open>to_numpy\<close> is the frame as a matrix, a list of rows.
\<close>

record dframe =
  nrows :: nat
  cols :: "(string \<times> dcell list) list"

definition wf_dframe :: "dframe \<Rightarrow> bool" where
  "wf_dframe df = (\<forall>c \<in> set (cols df). length (snd c) = nrows df)"

definition to_numpy :: "dframe \<Rightarrow> dcell list list" where
  "to_numpy df = map (\<lambda>i. map (\<lambda>c. snd c ! i) (cols df)) [0..<nrows df]"

text \<open>
  \<^verbatim>\<open>astype(pd.SparseDtype("float64", 0))\<close> casts every cell to float64 and turns every
  column into a sparse array with fill value 0: the positions whose value differs from the
  fill value, in increasing order, and the values at those positions. The call returns a
  new frame.
\<close>

record sparse_array =
  sp_length :: nat
  sp_indices :: "nat list"
  sp_values :: "real list"
  fill_value :: real

definition SparseArray :: "real list \<Rightarrow> real \<Rightarrow> sparse_array" where
  "SparseArray xs fill =
     \<lparr>sp_length = length xs,
      sp_indices = filter (\<lambda>i. xs ! i \<noteq> fill) [0..<length xs],
      sp_values = filter (\<lambda>x. x \<noteq> fill) xs,
      fill_value = fill\<rparr>"

record sframe =
  s_nrows :: nat
  s_cols :: "(string \<times> sparse_array) list"

definition astype_sparse :: "dframe \<Rightarrow> real \<Rightarrow> sframe" where
  "astype_sparse df fill =
     \<lparr>s_nrows = nrows df, s_cols = map (\<lambda>(name, xs). (name, SparseArray (map astype_float64 xs) fill)) (cols df)\<rparr>"

text \<open>
  \<^verbatim>\<open>.sparse.to_coo()\<close> builds a SciPy COO matrix: three parallel arrays of row indices,
  column indices and values, and the shape of the frame. It walks the columns in order
  (\<^verbatim>\<open>for col, (_, ser) in enumerate(...)\<close>) and concatenates, per column, the stored
  positions, the column number repeated, and the stored values. It raises \<^verbatim>\<open>ValueError\<close>
  on a frame with no column (no common dtype of an empty list) and on a fill value other
  than 0.
\<close>

record coo_matrix =
  shape :: "nat \<times> nat"
  row :: "nat list"
  col :: "nat list"
  data :: "real list"

fun coo_columns :: "nat \<Rightarrow> sparse_array list \<Rightarrow> nat list \<times> nat list \<times> real list" where
  "coo_columns j [] = ([], [], [])"
| "coo_columns j (a # arrs) =
     (case coo_columns (Suc j) arrs of
        (rs, cs, ds) \<Rightarrow>
          (sp_indices a @ rs, replicate (length (sp_indices a)) j @ cs, sp_values a @ ds))"

definition to_coo :: "sframe \<Rightarrow> py_error + coo_matrix" where
  "to_coo sf =
     (if s_cols sf = [] then Inl ValueError
      else if \<exists>a \<in> set (map snd (s_cols sf)). fill_value a \<noteq> 0 then Inl ValueError
      else case coo_columns 0 (map snd (s_cols sf)) of
        (rs, cs, ds) \<Rightarrow>
          Inr \<lparr>shape = (s_nrows sf, length (s_cols sf)), row = rs, col = cs, data = ds\<rparr>)"

definition sparsify :: "dframe \<Rightarrow> py_error + coo_matrix" where
  "sparsify df = to_coo (astype_sparse df 0)"

text \<open>
  Densifying a COO matrix (\<^verbatim>\<open>todense\<close>): the entry at a position is the sum of the values
  stored for that position, zero where none is stored.
\<close>

definition coo_entries :: "coo_matrix \<Rightarrow> (nat \<times> nat \<times> real) list" where
  "coo_entries m = zip (row m) (zip (col m) (data m))"

definition coo_at :: "coo_matrix \<Rightarrow> nat \<Rightarrow> nat \<Rightarrow> real" where
  "coo_at m i j = sum_list (map (\<lambda>(r, c, v). if r = i \<and> c = j then v else 0) (coo_entries m))"

definition todense :: "coo_matrix \<Rightarrow> real list list" where
  "todense m = map (\<lambda>i. map (\<lambda>j. coo_at m i j) [0..<snd (shape m)]) [0..<fst (shape m)]"

text \<open>
  The entries one column contributes, and those of a list of columns numbered from \<open>j\<close>:
  the form in which the loop of \<open>to_coo\<close> is reasoned about.
\<close>

definition col_entries :: "nat \<Rightarrow> real list \<Rightarrow> (nat \<times> nat \<times> real) list" where
  "col_entries k xs = map (\<lambda>i. (i, k, xs ! i)) (filter (\<lambda>i. xs ! i \<noteq> 0) [0..<length xs])"

fun frame_entries :: "nat \<Rightarrow> real list list \<Rightarrow> (nat \<times> nat \<times> real) list" where
  "frame_entries j [] = []"
| "frame_entries j (xs # xss) = col_entries j xs @ frame_entries (Suc j) xss"

section \<open>Model selector\<close>

text \<open>
  \<^verbatim>\<open>logreg_params = {'penalty':['l1','l2'], 'C':[0.01,0.1,1,10,100]}\<close>

  \<^verbatim>\<open>logreg_grid = GridSearchCV(LogisticRegression(solver='liblinear'), logreg_params, n_jobs=-1)\<close>

  \<^verbatim>\<open>logreg_grid.fit(X_train_sparse, y_train)\<close>

  The grid is the dictionary of the source. \<open>ParameterGrid\<close> enumerates it as scikit-learn
  does: the keys in sorted order (\<^verbatim>\<open>'C'\<close> before \<^verbatim>\<open>'penalty'\<close>), the last key varying
  fastest. The values of \<^verbatim>\<open>C\<close> are the decimal numbers the literals denote.
\<close>

datatype penalty = L1 | L2

record lr_params =
  penalty :: penalty
  C :: real

record param_grid =
  penalty_values :: "penalty list"
  C_values :: "real list"

definition logreg_params :: param_grid where
  "logreg_params = \<lparr>penalty_values = [L1, L2], C_values = [1/100, 1/10, 1, 10, 100]\<rparr>"

definition ParameterGrid :: "param_grid \<Rightarrow> lr_params list" where
  "ParameterGrid grid =
     concat (map (\<lambda>c. map (\<lambda>p. \<lparr>penalty = p, C = c\<rparr>) (penalty_values grid)) (C_values grid))"

text \<open>
  A fitted logistic regression is its two class labels in increasing order, a weight per
  column and an intercept. The liblinear solver is not part of the repository: it is a
  parameter \<open>solve\<close>, any function from a configuration, the training rows and, for every
  row, whether its label is the second class, to a weight for every column number and an
  intercept. So is the splitter: \<open>cv\<close> is the list of folds (with \<^verbatim>\<open>cv=None\<close>, five
  stratified folds), each the row numbers to train on and the row numbers held out.

  \<open>check_array\<close> is the input validation of scikit-learn: \<^verbatim>\<open>ValueError\<close> on a matrix
  without rows or without columns, otherwise the number of columns. A list of rows of
  different lengths is no matrix and is rejected as well.
  \<open>LogisticRegression_fit\<close> validates its input (also: as many labels as rows), raises
  \<^verbatim>\<open>ValueError\<close> when the labels hold fewer than two classes, as the liblinear wrapper
  does, and otherwise keeps the solver's weights for the columns of the matrix. Labels of
  more than two classes do not arise, since the binarizer returns 0 and 1 only; that
  branch stands for a case the notebook cannot reach.

  \<open>predict\<close> validates its input as well, raises \<^verbatim>\<open>ValueError\<close> on a matrix whose number
  of columns is not the number of weights, and labels a row with the second class where
  the decision function is positive and with the first class otherwise. \<open>score\<close> is the
  accuracy of the predictions, the share of rows predicted right (\<^verbatim>\<open>ValueError\<close> when
  there are not as many labels as rows).
\<close>

record logreg =
  classes :: "int \<times> int"
  coef :: "real list"
  intercept :: real

type_synonym solver = "lr_params \<Rightarrow> real list list \<Rightarrow> bool list \<Rightarrow> (nat \<Rightarrow> real) \<times> real"

type_synonym folds = "(nat list \<times> nat list) list"

definition check_array :: "real list list \<Rightarrow> py_error + nat" where
  "check_array X =
     (case X of
        [] \<Rightarrow> Inl ValueError
      | x # xs \<Rightarrow>
          if x = [] \<or> (\<exists>x' \<in> set xs. length x' \<noteq> length x) then Inl ValueError
          else Inr (length x))"

definition LogisticRegression_fit ::
  "solver \<Rightarrow> lr_params \<Rightarrow> real list list \<Rightarrow> int list \<Rightarrow> py_error + logreg" where
  "LogisticRegression_fit solve p X y =
     (case check_array X of
        Inl e \<Rightarrow> Inl e
      | Inr n \<Rightarrow>
          if length X \<noteq> length y then Inl ValueError
          else case sort (remdups y) of
            [neg, pos] \<Rightarrow>
              (case solve p X (map (\<lambda>v. v = pos) y) of
                 (w, b) \<Rightarrow> Inr \<lparr>classes = (neg, pos), coef = map w [0..<n], intercept = b\<rparr>)
          | _ \<Rightarrow> Inl ValueError)"

definition decision_function :: "logreg \<Rightarrow> real list \<Rightarrow> real" where
  "decision_function m x = intercept m + sum_list (map (\<lambda>(w, v). w * v) (zip (coef m) x))"

definition predict :: "logreg \<Rightarrow> real list list \<Rightarrow> py_error + int list" where
  "predict m X =
     (case check_array X of
        Inl e \<Rightarrow> Inl e
      | Inr n \<Rightarrow>
          if n \<noteq> length (coef m) then Inl ValueError
          else Inr (map (\<lambda>x. if 0 < decision_function m x then snd (classes m)
                             else fst (classes m)) X))"

definition accuracy_score :: "int list \<Rightarrow> int list \<Rightarrow> real" where
  "accuracy_score y_true y_pred =
     real (length (filter (\<lambda>(t, p). t = p) (zip y_true y_pred))) / real (length y_true)"

definition score :: "logreg \<Rightarrow> real list list \<Rightarrow> int list \<Rightarrow> py_error + real" where
  "score m X y =
     (case predict m X of
        Inl e \<Rightarrow> Inl e
      | Inr y_pred \<Rightarrow>
          if length y \<noteq> length y_pred then Inl ValueError
          else Inr (accuracy_score y y_pred))"

text \<open>
  Inside the search a fit or a scoring that raises does not stop the search
  (\<^verbatim>\<open>error_score=np.nan\<close>): the score of that fold is NaN. \<open>take_rows\<close> selects rows by
  their numbers; \<open>fit_and_score\<close> fits on the training rows of a fold and scores on its
  held-out rows, and tells the three outcomes apart. The mean over the folds is NaN
  (\<open>None\<close>) as soon as the score of one fold is.
\<close>

definition take_rows :: "'a list \<Rightarrow> nat list \<Rightarrow> 'a list" where
  "take_rows xs idx = map (\<lambda>i. xs ! i) idx"

datatype fold_result = FitFailed | ScoreFailed | Scored real

definition fit_and_score ::
  "solver \<Rightarrow> lr_params \<Rightarrow> real list list \<Rightarrow> int list \<Rightarrow> nat list \<times> nat list \<Rightarrow> fold_result" where
  "fit_and_score solve p X y part =
     (case part of
        (train, test) \<Rightarrow>
          (case LogisticRegression_fit solve p (take_rows X train) (take_rows y train) of
             Inl e \<Rightarrow> FitFailed
           | Inr m \<Rightarrow>
               (case score m (take_rows X test) (take_rows y test) of
                  Inl e \<Rightarrow> ScoreFailed
                | Inr a \<Rightarrow> Scored a)))"

fun sum_scores :: "fold_result list \<Rightarrow> real option" where
  "sum_scores [] = Some 0"
| "sum_scores (Scored a # rs) = map_option (\<lambda>s. a + s) (sum_scores rs)"
| "sum_scores (r # rs) = None"

definition mean_test_score :: "fold_result list \<Rightarrow> real option" where
  "mean_test_score rs = map_option (\<lambda>s. s / real (length rs)) (sum_scores rs)"

text \<open>
  \<^verbatim>\<open>best_index_\<close> is the first candidate of rank 1. Ranks are taken with NaN below every
  number, so this is the first candidate whose mean is the largest of the means that are
  numbers, and candidate 0 when every mean is NaN.
\<close>

fun first_index_of :: "'a \<Rightarrow> 'a list \<Rightarrow> nat" where
  "first_index_of m [] = 0"
| "first_index_of m (s # ss) = (if s = m then 0 else Suc (first_index_of m ss))"

definition rank_argmin :: "real option list \<Rightarrow> nat" where
  "rank_argmin means =
     (case List.map_filter (\<lambda>m. m) means of
        [] \<Rightarrow> 0
      | a # as \<Rightarrow> first_index_of (Some (Max (set (a # as)))) means)"

text \<open>
  \<open>GridSearchCV_fit\<close>: feature and label inputs of different lengths, an empty grid or no
  fold raise \<^verbatim>\<open>ValueError\<close>; a fold that names a row the data does not have raises
  \<^verbatim>\<open>IndexError\<close>. Every candidate is fitted and scored on every fold; when every one of
  these fits failed the search raises \<^verbatim>\<open>ValueError\<close>. Otherwise every candidate gets the
  mean of its fold scores, and the best candidate is refitted on all rows
  (\<^verbatim>\<open>refit=True\<close>); an exception of that fit is raised.

  \<open>model_selector\<close> is the cell: the search on the training set, then the two printed
  accuracies, \<^verbatim>\<open>logreg_grid.score(X_train_sparse, y_train)\<close> and
  \<^verbatim>\<open>logreg_grid.score(X_test_sparse, y_test)\<close>, both of the refitted estimator.
\<close>

record grid_search =
  cv_results :: "(lr_params \<times> real option) list"
  best_index :: nat
  best_params :: lr_params
  best_score :: "real option"
  best_estimator :: logreg

definition GridSearchCV_fit ::
  "solver \<Rightarrow> folds \<Rightarrow> param_grid \<Rightarrow> real list list \<Rightarrow> int list \<Rightarrow> py_error + grid_search" where
  "GridSearchCV_fit solve cv grid X y =
     (let candidates = ParameterGrid grid in
      if length X \<noteq> length y \<or> candidates = [] \<or> cv = [] then Inl ValueError
      else if \<exists>part \<in> set cv. \<exists>i \<in> set (fst part) \<union> set (snd part). length X \<le> i
        then Inl IndexError
      else
        let results = map (\<lambda>p. map (fit_and_score solve p X y) cv) candidates in
        if \<forall>rs \<in> set results. \<forall>r \<in> set rs. r = FitFailed then Inl ValueError
        else
          let means = map mean_test_score results;
              best = rank_argmin means
          in case LogisticRegression_fit solve (candidates ! best) X y of
               Inl e \<Rightarrow> Inl e
             | Inr m \<Rightarrow>
                 Inr \<lparr>cv_results = zip candidates means,
                      best_index = best,
                      best_params = candidates ! best,
                      best_score = means ! best,
                      best_estimator = m\<rparr>)"

definition model_selector ::
  "solver \<Rightarrow> folds \<Rightarrow> real list list \<Rightarrow> int list \<Rightarrow> real list list \<Rightarrow> int list
     \<Rightarrow> py_error + grid_search \<times> real \<times> real" where
  "model_selector solve cv X_train y_train X_test y_test =
     (case GridSearchCV_fit solve cv logreg_params X_train y_train of
        Inl e \<Rightarrow> Inl e
      | Inr g \<Rightarrow>
          (case score (best_estimator g) X_train y_train of
             Inl e \<Rightarrow> Inl e
           | Inr train_accuracy \<Rightarrow>
               (case score (best_estimator g) X_test y_test of
                  Inl e \<Rightarrow> Inl e
                | Inr test_accuracy \<Rightarrow> Inr (g, train_accuracy, test_accuracy))))"

section \<open>Weight inspector\<close>

text \<open>
  \<^verbatim>\<open>parameter_weight_df = pd.DataFrame(logreg_grid.best_estimator_.coef_[0], index = X_train_tfidf.columns)\<close>

  \<^verbatim>\<open>parameter_weight_df.columns = ['Weight']\<close>

  \<^verbatim>\<open>parameter_weight_df.sort_values('Weight', ascending=False).head(30)\<close>

  The weight frame has one column and one row per feature name. Its constructor raises
  \<^verbatim>\<open>ValueError\<close> when the index and the values differ in length, and names the column
  \<open>0\<close>; the assignment to \<^verbatim>\<open>columns\<close> renames it (\<^verbatim>\<open>ValueError\<close> unless one name is
  given).
\<close>

datatype label = IntLabel int | StrLabel string

record weight_frame =
  w_column :: label
  w_rows :: "(string \<times> real) list"

definition DataFrame :: "real list \<Rightarrow> string list \<Rightarrow> py_error + weight_frame" where
  "DataFrame values index =
     (if length values = length index
      then Inr \<lparr>w_column = IntLabel 0, w_rows = zip index values\<rparr>
      else Inl ValueError)"

definition set_columns :: "weight_frame \<Rightarrow> string list \<Rightarrow> py_error + weight_frame" where
  "set_columns df names =
     (case names of [name] \<Rightarrow> Inr (df\<lparr>w_column := StrLabel name\<rparr>) | _ \<Rightarrow> Inl ValueError)"

definition parameter_weight_df :: "real list \<Rightarrow> string list \<Rightarrow> py_error + weight_frame" where
  "parameter_weight_df coefs columns =
     (case DataFrame coefs columns of
        Inl e \<Rightarrow> Inl e
      | Inr df \<Rightarrow> set_columns df [''Weight''])"

text \<open>
  \<^verbatim>\<open>sort_values\<close> is called with its default \<^verbatim>\<open>kind='quicksort'\<close>, which pandas documents
  as not stable (only \<^verbatim>\<open>mergesort\<close> and \<^verbatim>\<open>stable\<close> are), and the notebook passes no other
  \<^verbatim>\<open>kind\<close>. What the call promises is therefore a relation: \<open>sort_values_desc df by res\<close>
  holds of every result the call may return, a \<^verbatim>\<open>KeyError\<close> when the frame has no column
  \<open>by\<close>, and otherwise any rearrangement of the rows in which the weights never increase.
  \<open>head n\<close> keeps the first \<open>n\<close> rows (all of them when there are fewer).

  \<open>weight_inspector coefs columns res shown\<close> is the cell: \<open>res\<close> is what \<^verbatim>\<open>sort_values\<close>
  returned and \<open>shown\<close> the frame the cell displays.
\<close>

definition descending :: "(string \<times> real) list \<Rightarrow> bool" where
  "descending rows = sorted_wrt (\<lambda>a b. snd b \<le> snd a) rows"

definition sort_values_desc :: "weight_frame \<Rightarrow> string \<Rightarrow> py_error + weight_frame \<Rightarrow> bool" where
  "sort_values_desc df by res =
     (case res of
        Inl e \<Rightarrow> e = KeyError \<and> w_column df \<noteq> StrLabel by
      | Inr sorted_df \<Rightarrow>
          w_column df = StrLabel by \<and> w_column sorted_df = w_column df
          \<and> mset (w_rows sorted_df) = mset (w_rows df) \<and> descending (w_rows sorted_df))"

definition head :: "nat \<Rightarrow> weight_frame \<Rightarrow> weight_frame" where
  "head n df = df\<lparr>w_rows := take n (w_rows df)\<rparr>"

definition weight_inspector ::
  "real list \<Rightarrow> string list \<Rightarrow> py_error + weight_frame \<Rightarrow> py_error + weight_frame \<Rightarrow> bool" where
  "weight_inspector coefs columns res shown =
     (case parameter_weight_df coefs columns of
        Inl e \<Rightarrow> res = Inl e \<and> shown = Inl e
      | Inr df \<Rightarrow> sort_values_desc df ''Weight'' res \<and> shown = map_sum id (head 30) res)"

text \<open>
  The order the specification words: descending by weight, rows of equal weight in the
  order of the columns of the feature matrix (a stable sort).
\<close>

definition spec_stable_desc :: "(string \<times> real) list \<Rightarrow> (string \<times> real) list" where
  "spec_stable_desc rows = sort_key (\<lambda>r. - snd r) rows"

text \<open>
  Eighteen features that all got the weight 0, and a display of them in another order than
  that of the columns.
\<close>

definition tied_columns :: "string list" where
  "tied_columns =
      [''w00'', ''w01'', ''w02'', ''w03'', ''w04'', ''w05'', ''w06'', ''w07'', ''w08'',
       ''w09'', ''w10'', ''w11'', ''w12'', ''w13'', ''w14'', ''w15'', ''w16'', ''w17'']"

definition tied_display :: "(string \<times> real) list" where
  "tied_display =
      [(''w00'', 0), (''w01'', 0), (''w16'', 0), (''w15'', 0), (''w14'', 0),
       (''w13'', 0), (''w12'', 0), (''w11'', 0), (''w10'', 0), (''w09'', 0),
       (''w08'', 0), (''w07'', 0), (''w06'', 0), (''w05'', 0), (''w04'', 0),
       (''w03'', 0), (''w02'', 0), (''w17'', 0)]"

section \<open>The notebook as a program on a store\<close>

text \<open>
  The notebook's variables name objects: \<open>env\<close> maps a variable to an address and \<open>heap\<close>
  holds the object at each address. An assignment of a freshly built object allocates it at
  the next address and binds the variable to it (\<open>assign\<close>); a method that changes an object
  in place overwrites the object at the variable's address (\<open>mutate\<close>): \<^verbatim>\<open>logreg_grid.fit\<close>
  and the assignment to \<^verbatim>\<open>parameter_weight_df.columns\<close> are the two in-place changes of the
  notebook. Temporary objects that no variable names are not allocated.
\<close>

datatype obj =
    DenseFrame dframe
  | LabelFrame "cell frame"
  | IntSeries "int list"
  | CooMatrix coo_matrix
  | ParamDict param_grid
  | GridSearchCV "grid_search option"
  | WeightFrame weight_frame

record notebook =
  heap :: "obj list"
  env :: "string \<Rightarrow> nat option"

definition assign :: "string \<Rightarrow> obj \<Rightarrow> notebook \<Rightarrow> notebook" where
  "assign name v s = s\<lparr>heap := heap s @ [v], env := (env s)(name \<mapsto> length (heap s))\<rparr>"

definition lookup :: "notebook \<Rightarrow> string \<Rightarrow> py_error + obj" where
  "lookup s name =
     (case env s name of
        None \<Rightarrow> Inl NameError
      | Some a \<Rightarrow> if a < length (heap s) then Inr (heap s ! a) else Inl NameError)"

definition mutate :: "string \<Rightarrow> obj \<Rightarrow> notebook \<Rightarrow> py_error + notebook" where
  "mutate name v s =
     (case env s name of
        None \<Rightarrow> Inl NameError
      | Some a \<Rightarrow> if a < length (heap s) then Inr (s\<lparr>heap := (heap s)[a := v]\<rparr>) else Inl NameError)"

text \<open>
  The cells, in the notebook's order. \<open>cell_load\<close> binds the four unpickled objects (the
  contents of the files are parameters). Each later cell returns the store it leaves, or
  the exception that stops it; a variable bound to an object of another kind than the
  cell's expression needs ends the cell with an exception as well.
\<close>

definition cell_load :: "dframe \<Rightarrow> dframe \<Rightarrow> cell frame \<Rightarrow> cell frame \<Rightarrow> notebook \<Rightarrow> notebook" where
  "cell_load train test train_severity test_severity s =
     assign ''y_test'' (LabelFrame test_severity)
       (assign ''y_train'' (LabelFrame train_severity)
         (assign ''X_test_tfidf'' (DenseFrame test)
           (assign ''X_train_tfidf'' (DenseFrame train) s)))"

definition sparsify_var :: "string \<Rightarrow> string \<Rightarrow> notebook \<Rightarrow> py_error + notebook" where
  "sparsify_var src dst s =
     (case lookup s src of
        Inl e \<Rightarrow> Inl e
      | Inr (DenseFrame df) \<Rightarrow>
          (case sparsify df of Inl e \<Rightarrow> Inl e | Inr m \<Rightarrow> Inr (assign dst (CooMatrix m) s))
      | Inr _ \<Rightarrow> Inl AttributeError)"

definition cell_sparsify :: "notebook \<Rightarrow> py_error + notebook" where
  "cell_sparsify s =
     (case sparsify_var ''X_train_tfidf'' ''X_train_sparse'' s of
        Inl e \<Rightarrow> Inl e
      | Inr s1 \<Rightarrow> sparsify_var ''X_test_tfidf'' ''X_test_sparse'' s1)"

definition binarize_var :: "string \<Rightarrow> notebook \<Rightarrow> py_error + notebook" where
  "binarize_var name s =
     (case lookup s name of
        Inl e \<Rightarrow> Inl e
      | Inr (LabelFrame y) \<Rightarrow>
          (case binarize y of Inl e \<Rightarrow> Inl e | Inr ys \<Rightarrow> Inr (assign name (IntSeries ys) s))
      | Inr _ \<Rightarrow> Inl AttributeError)"

definition cell_binarize :: "notebook \<Rightarrow> py_error + notebook" where
  "cell_binarize s =
     (case binarize_var ''y_train'' s of
        Inl e \<Rightarrow> Inl e
      | Inr s1 \<Rightarrow> binarize_var ''y_test'' s1)"

definition cell_baseline :: "notebook \<Rightarrow> py_error + real" where
  "cell_baseline s =
     (case lookup s ''y_test'' of
        Inl e \<Rightarrow> Inl e
      | Inr (IntSeries ys) \<Rightarrow> baseline ys
      | Inr _ \<Rightarrow> Inl AttributeError)"

definition get_matrix :: "notebook \<Rightarrow> string \<Rightarrow> py_error + real list list" where
  "get_matrix s name =
     (case lookup s name of
        Inl e \<Rightarrow> Inl e
      | Inr (CooMatrix m) \<Rightarrow> Inr (todense m)
      | Inr _ \<Rightarrow> Inl ValueError)"

definition get_series :: "notebook \<Rightarrow> string \<Rightarrow> py_error + int list" where
  "get_series s name =
     (case lookup s name of
        Inl e \<Rightarrow> Inl e
      | Inr (IntSeries ys) \<Rightarrow> Inr ys
      | Inr _ \<Rightarrow> Inl ValueError)"

definition cell_gridsearch :: "solver \<Rightarrow> folds \<Rightarrow> notebook \<Rightarrow> py_error + notebook \<times> real \<times> real" where
  "cell_gridsearch fit cv s =
     (let s1 = assign ''logreg_grid'' (GridSearchCV None)
                 (assign ''logreg_params'' (ParamDict logreg_params) s)
      in case get_matrix s1 ''X_train_sparse'' of Inl e \<Rightarrow> Inl e | Inr X_train \<Rightarrow>
         case get_series s1 ''y_train'' of Inl e \<Rightarrow> Inl e | Inr y_train \<Rightarrow>
         case get_matrix s1 ''X_test_sparse'' of Inl e \<Rightarrow> Inl e | Inr X_test \<Rightarrow>
         case get_series s1 ''y_test'' of Inl e \<Rightarrow> Inl e | Inr y_test \<Rightarrow>
         case model_selector fit cv X_train y_train X_test y_test of Inl e \<Rightarrow> Inl e
         | Inr (g, train_accuracy, test_accuracy) \<Rightarrow>
         case mutate ''logreg_grid'' (GridSearchCV (Some g)) s1 of Inl e \<Rightarrow> Inl e
         | Inr s2 \<Rightarrow> Inr (s2, train_accuracy, test_accuracy))"

definition cell_weights :: "notebook \<Rightarrow> py_error + notebook" where
  "cell_weights s =
     (case lookup s ''logreg_grid'' of
        Inl e \<Rightarrow> Inl e
      | Inr (GridSearchCV (Some g)) \<Rightarrow>
          (case lookup s ''X_train_tfidf'' of
             Inl e \<Rightarrow> Inl e
           | Inr (DenseFrame X) \<Rightarrow>
               (case DataFrame (coef (best_estimator g)) (map fst (cols X)) of
                  Inl e \<Rightarrow> Inl e
                | Inr df \<Rightarrow>
                    (let s1 = assign ''parameter_weight_df'' (WeightFrame df) s
                     in case set_columns df [''Weight''] of
                          Inl e \<Rightarrow> Inl e
                        | Inr df' \<Rightarrow> mutate ''parameter_weight_df'' (WeightFrame df') s1))
           | Inr _ \<Rightarrow> Inl AttributeError)
      | Inr _ \<Rightarrow> Inl AttributeError)"

definition run_cells :: "solver \<Rightarrow> folds \<Rightarrow> notebook \<Rightarrow> py_error + notebook \<times> real list" where
  "run_cells fit cv s =
     (case cell_sparsify s of Inl e \<Rightarrow> Inl e | Inr s1 \<Rightarrow>
      case cell_binarize s1 of Inl e \<Rightarrow> Inl e | Inr s2 \<Rightarrow>
      case cell_baseline s2 of Inl e \<Rightarrow> Inl e | Inr baseline_accuracy \<Rightarrow>
      case cell_gridsearch fit cv s2 of Inl e \<Rightarrow> Inl e
      | Inr (s3, train_accuracy, test_accuracy) \<Rightarrow>
      case cell_weights s3 of Inl e \<Rightarrow> Inl e
      | Inr s4 \<Rightarrow> Inr (s4, [baseline_accuracy, train_accuracy, test_accuracy]))"

definition run_notebook ::
  "solver \<Rightarrow> folds \<Rightarrow> dframe \<Rightarrow> dframe \<Rightarrow> cell frame \<Rightarrow> cell frame
     \<Rightarrow> py_error + notebook \<times> real list" where
  "run_notebook fit cv train test train_severity test_severity =
     run_cells fit cv (cell_load train test train_severity test_severity \<lparr>heap = [], env = Map.empty\<rparr>)"

text \<open>
  \<open>extends s s'\<close>: the store \<open>s'\<close> has every object of \<open>s\<close> at its address, unchanged, and
  binds the two dense feature frames to the addresses they had.
\<close>

definition extends :: "notebook \<Rightarrow> notebook \<Rightarrow> bool" where
  "extends s s' =
     (length (heap s) \<le> length (heap s')
      \<and> (\<forall>a < length (heap s). heap s' ! a = heap s ! a)
      \<and> env s' ''X_train_tfidf'' = env s ''X_train_tfidf''
      \<and> env s' ''X_test_tfidf'' = env s ''X_test_tfidf'')"

section \<open>A small data set\<close>

text \<open>
  Four training reports and two test reports over three vocabulary columns, with their
  severity labels; a stand-in for the solver, which returns no weight under \<open>l1\<close>, under
  \<open>l2\<close> the sum of the rows of the second class minus the sum of the other rows, scaled by
  \<open>C\<close>, and the intercept \<open>C - 1\<close>; and two folds.
\<close>

definition toy_train :: dframe where
  "toy_train = \<lparr>nrows = 4,
     cols = [(''crash'', [Float64 1, Float64 0, Float64 (1/2), Float64 0]),
             (''fire'', [Float64 0, Float64 1, Float64 0, Float64 0]),
             (''wing'', [Float64 0, Float64 0, Float64 0, Float64 1])]\<rparr>"

definition toy_test :: dframe where
  "toy_test = \<lparr>nrows = 2,
     cols = [(''crash'', [Float64 1, Float64 1]),
             (''fire'', [Float64 0, Float64 0]),
             (''wing'', [Float64 0, Float64 (1/2)])]\<rparr>"

definition toy_train_severity :: "cell frame" where
  "toy_train_severity = [(''cm_highestinjury'', [Str ''Fatal'', Str ''Minor'', Str ''Fatal'', Str ''Minor''])]"

definition toy_test_severity :: "cell frame" where
  "toy_test_severity = [(''cm_highestinjury'', [Str ''Fatal'', Str ''Minor''])]"

definition toy_fit :: solver where
  "toy_fit p X y =
     (if penalty p = L1 then (\<lambda>j. 0)
      else (\<lambda>j. C p * sum_list (map (\<lambda>(x, t). if t then x ! j else - (x ! j)) (zip X y))),
      C p - 1)"

definition toy_cv :: folds where
  "toy_cv = [([2, 3], [0, 1]), ([0, 1], [2, 3])]"

section \<open>Properties of the binarizer\<close>

lemma map_of_astype_eq:
  "map_of (astype_int (eq_scalar y v)) name =
     map_option (map (\<lambda>c. if c = v then 1 else 0)) (map_of y name)"
  by (induction y) (auto simp: astype_int_def eq_scalar_def)

lemma binarize_column:
  assumes "map_of y ''cm_highestinjury'' = Some column"
  shows "binarize y = Inr (map (\<lambda>c. if c = Str ''Fatal'' then 1 else 0) column)"
  using assms by (simp add: binarize_def getattr_column_def map_of_astype_eq)

lemma binarize_no_column:
  assumes "map_of y ''cm_highestinjury'' = None"
  shows "binarize y = Inl AttributeError"
  using assms by (simp add: binarize_def getattr_column_def map_of_astype_eq)

lemma count_list_indicator:
  "count_list (map (\<lambda>c. if c = v then (1::int) else 0) column) 1 = count_list column v"
  by (induction column) auto

text \<open>
  Claim C2. For every label frame with a column \<^verbatim>\<open>cm_highestinjury\<close>, the binarizer
  returns a vector of the column's length whose values are 0 or 1, with a 1 exactly at
  the rows whose value is the string \<^verbatim>\<open>Fatal\<close> (every other value, of any case or kind,
  gives 0), so that the number of 1s is the number of rows equal to \<^verbatim>\<open>Fatal\<close>.
\<close>

theorem binarize_indicator:
  assumes "map_of y ''cm_highestinjury'' = Some column"
  shows "\<exists>ys. binarize y = Inr ys \<and> length ys = length column \<and> set ys \<subseteq> {0, 1}
           \<and> count_list ys 1 = count_list column (Str ''Fatal'')
           \<and> (\<forall>i < length column. ys ! i = (if column ! i = Str ''Fatal'' then 1 else 0))"
proof -
  let ?ys = "map (\<lambda>c. if c = Str ''Fatal'' then (1::int) else 0) column"
  have "binarize y = Inr ?ys"
    by (rule binarize_column [OF assms])
  moreover have "set ?ys \<subseteq> {0, 1}"
    by auto
  moreover have "count_list ?ys 1 = count_list column (Str ''Fatal'')"
    by (rule count_list_indicator)
  ultimately show ?thesis
    by simp
qed

theorem binarize_indicator_witness:
  "\<exists>ys. binarize [(''cm_highestinjury'', [Str ''Fatal'', Str ''Minor'', Str ''fatal'', NaN, Str ''Fatal''])]
          = Inr ys
      \<and> length ys = length [Str ''Fatal'', Str ''Minor'', Str ''fatal'', NaN, Str ''Fatal'']
      \<and> set ys \<subseteq> {0, 1}
      \<and> count_list ys 1
          = count_list [Str ''Fatal'', Str ''Minor'', Str ''fatal'', NaN, Str ''Fatal''] (Str ''Fatal'')
      \<and> (\<forall>i < length [Str ''Fatal'', Str ''Minor'', Str ''fatal'', NaN, Str ''Fatal''].
            ys ! i = (if [Str ''Fatal'', Str ''Minor'', Str ''fatal'', NaN, Str ''Fatal''] ! i = Str ''Fatal''
                      then 1 else 0))"
  by (rule binarize_indicator) simp

text \<open>
  Claim C5. When no row of the column equals the string \<^verbatim>\<open>Fatal\<close>, the binarizer
  returns a vector of zeros, one per row: a value, not an exception. The expression has no
  other output (it prints and warns nothing), so the returned value is all it produces.
\<close>

theorem binarize_without_fatal:
  assumes "map_of y ''cm_highestinjury'' = Some column"
    and "Str ''Fatal'' \<notin> set column"
  shows "binarize y = Inr (replicate (length column) 0)"
proof -
  have "map (\<lambda>c. if c = Str ''Fatal'' then (1::int) else 0) column = replicate (length column) 0"
    using assms(2) by (induction column) auto
  then show ?thesis
    using binarize_column [OF assms(1)] by simp
qed

theorem binarize_without_fatal_witness:
  "binarize [(''cm_highestinjury'', [Str ''fatal'', Str ''FATAL'', Str ''Fatal '', NaN])]
     = Inr [0, 0, 0, 0]"
  using binarize_without_fatal
    [of "[(''cm_highestinjury'', [Str ''fatal'', Str ''FATAL'', Str ''Fatal '', NaN])]"
        "[Str ''fatal'', Str ''FATAL'', Str ''Fatal '', NaN]"]
  by (simp add: numeral_eq_Suc)

section \<open>Properties of the baseline estimator\<close>

lemma set_unique: "set (unique ys) = set ys"
  by (simp add: unique_def)

lemma map_of_value_counts:
  "map_of (value_counts_normalize ys) v =
     (if v \<in> set ys then Some (real (count_list ys v) / real (length ys)) else None)"
  by (simp add: value_counts_normalize_def map_of_map_restrict restrict_map_def set_unique)

lemma baseline_class0:
  "baseline ys = (if 0 \<in> set ys then Inr (real (count_list ys 0) / real (length ys)) else Inl KeyError)"
  by (simp add: baseline_def getitem_def map_of_value_counts)

lemma baseline_majority_when_class0_majority:
  assumes "0 \<in> set ys" and "count_list ys 1 \<le> count_list ys 0"
  shows "baseline ys = Inr (spec_majority_proportion ys)"
  using assms by (simp add: baseline_class0 spec_majority_proportion_def max_def)

lemma zero_in_indicator:
  "(0 \<in> set (map (\<lambda>c. if c = v then (1::int) else 0) column)) = (\<exists>c\<in>set column. c \<noteq> v)"
  by (induction column) auto

text \<open>
  Claim C10. The baseline cell reads the share of label 0. For a test frame with the
  column \<^verbatim>\<open>cm_highestinjury\<close>, the binarized vector contains a 0 exactly when some row is
  not \<^verbatim>\<open>Fatal\<close>; the baseline is then the share of 0s, and when every row is \<^verbatim>\<open>Fatal\<close>
  (also when there is no row) the lookup raises \<^verbatim>\<open>KeyError\<close> and no accuracy is printed.
\<close>

theorem baseline_keyerror_without_nonfatal:
  assumes "map_of y_test ''cm_highestinjury'' = Some column"
  shows "\<exists>ys. binarize y_test = Inr ys
           \<and> (0 \<in> set ys) = (\<exists>c\<in>set column. c \<noteq> Str ''Fatal'')
           \<and> baseline ys = (if 0 \<in> set ys then Inr (real (count_list ys 0) / real (length ys))
                             else Inl KeyError)"
  using binarize_column [OF assms] zero_in_indicator [of "Str ''Fatal''" column]
  by (simp add: baseline_class0)

theorem baseline_keyerror_without_nonfatal_witness:
  "binarize [(''cm_highestinjury'', [Str ''Fatal'', Str ''Fatal''])] = Inr [1, 1]
   \<and> baseline [1, 1] = Inl KeyError"
  using baseline_keyerror_without_nonfatal
    [of "[(''cm_highestinjury'', [Str ''Fatal'', Str ''Fatal''])]" "[Str ''Fatal'', Str ''Fatal'']"]
  by (simp add: binarize_column baseline_class0)

text \<open>
  Claim C1. The claim is that the printed baseline is the share of the more frequent
  label, also when 1 is the more frequent one. The code prints the share of label 0: for
  the labels \<^verbatim>\<open>Fatal, Fatal, Minor\<close> the binarized vector is \<open>[1, 1, 0]\<close>, the cell prints
  \<open>1/3\<close>, and the share of the majority label is \<open>2/3\<close>.
\<close>

theorem baseline_class0_share_at_fatal_majority:
  "binarize [(''cm_highestinjury'', [Str ''Fatal'', Str ''Fatal'', Str ''Minor''])] = Inr [1, 1, 0]
   \<and> baseline [1, 1, 0] = Inr (1 / 3)
   \<and> spec_majority_proportion [1, 1, 0] = 2 / 3"
  by (simp add: binarize_column baseline_class0 spec_majority_proportion_def)

lemma baseline_empty: "baseline [] = Inl KeyError"
  by (simp add: baseline_def value_counts_normalize_def unique_def getitem_def)

section \<open>Properties of the sparsifier\<close>

lemma filter_values_as_indices:
  "filter (\<lambda>x. x \<noteq> (0::real)) xs = map (\<lambda>i. xs ! i) (filter (\<lambda>i. xs ! i \<noteq> 0) [0..<length xs])"
proof -
  have "filter (\<lambda>x. x \<noteq> 0) xs = filter (\<lambda>x. x \<noteq> 0) (map (\<lambda>i. xs ! i) [0..<length xs])"
    by (simp add: map_nth)
  also have "\<dots> = map (\<lambda>i. xs ! i) (filter (\<lambda>i. xs ! i \<noteq> 0) [0..<length xs])"
    by (simp add: filter_map comp_def)
  finally show ?thesis .
qed

lemma zip_replicate_map:
  "zip is (zip (replicate (length is) k) (map f is)) = map (\<lambda>i. (i, k, f i)) is"
  by (induction "is") auto

lemma sparse_column_entries:
  "zip (sp_indices (SparseArray xs 0))
       (zip (replicate (length (sp_indices (SparseArray xs 0))) k) (sp_values (SparseArray xs 0)))
     = col_entries k xs"
  unfolding col_entries_def SparseArray_def
  by (simp add: filter_values_as_indices [of xs] zip_replicate_map)

lemma sparse_column_lengths:
  "length (sp_values (SparseArray xs 0)) = length (sp_indices (SparseArray xs 0))"
  by (simp add: SparseArray_def filter_values_as_indices [of xs])

lemma coo_columns_lengths:
  "coo_columns j (map (\<lambda>xs. SparseArray xs 0) xss) = (rs, cs, ds) \<Longrightarrow>
     length cs = length rs \<and> length ds = length rs"
  by (induction xss arbitrary: j rs cs ds) (auto split: prod.splits simp: sparse_column_lengths)

lemma coo_columns_entries:
  "coo_columns j (map (\<lambda>xs. SparseArray xs 0) xss) = (rs, cs, ds) \<Longrightarrow>
     zip rs (zip cs ds) = frame_entries j xss"
proof (induction xss arbitrary: j rs cs ds)
  case Nil
  then show ?case by simp
next
  case (Cons xs xss)
  obtain rs' cs' ds' where rest: "coo_columns (Suc j) (map (\<lambda>xs. SparseArray xs 0) xss) = (rs', cs', ds')"
    by (cases "coo_columns (Suc j) (map (\<lambda>xs. SparseArray xs 0) xss)") auto
  from Cons.prems rest have
    rs: "rs = sp_indices (SparseArray xs 0) @ rs'" and
    cs: "cs = replicate (length (sp_indices (SparseArray xs 0))) j @ cs'" and
    ds: "ds = sp_values (SparseArray xs 0) @ ds'"
    by auto
  have "zip rs' (zip cs' ds') = frame_entries (Suc j) xss"
    by (rule Cons.IH [OF rest])
  then show ?case
    unfolding rs cs ds
    by (simp add: sparse_column_lengths sparse_column_entries)
qed

lemma sum_list_single_index:
  "distinct is \<Longrightarrow>
     sum_list (map (\<lambda>i'. if i' = i then g i' else (0::real)) is) = (if i \<in> set is then g i else 0)"
  by (induction "is") auto

lemma col_entries_at:
  "sum_list (map (\<lambda>(r, c, v). if r = i \<and> c = j then v else 0) (col_entries k xs))
     = (if k = j \<and> i < length xs then xs ! i else 0)"
proof (cases "k = j")
  case False
  then show ?thesis
    by (simp add: col_entries_def comp_def)
next
  case True
  have "sum_list (map (\<lambda>(r, c, v). if r = i \<and> c = j then v else 0) (col_entries k xs))
      = sum_list (map (\<lambda>i'. if i' = i then xs ! i' else 0) (filter (\<lambda>i. xs ! i \<noteq> 0) [0..<length xs]))"
    using True by (simp add: col_entries_def comp_def)
  also have "\<dots> = (if i \<in> set (filter (\<lambda>i. xs ! i \<noteq> 0) [0..<length xs]) then xs ! i else 0)"
    by (rule sum_list_single_index) simp
  also have "\<dots> = (if i < length xs then xs ! i else 0)"
    by auto
  finally show ?thesis
    using True by simp
qed

lemma frame_entries_at:
  "sum_list (map (\<lambda>(r, c, v). if r = i \<and> c = j then v else 0) (frame_entries j0 xss))
     = (if j0 \<le> j \<and> j < j0 + length xss \<and> i < length (xss ! (j - j0)) then xss ! (j - j0) ! i else 0)"
proof (induction xss arbitrary: j0)
  case Nil
  then show ?case by simp
next
  case (Cons xs xss)
  show ?case
  proof (cases "j0 = j")
    case True
    then show ?thesis
      by (simp add: Cons.IH col_entries_at)
  next
    case False
    then show ?thesis
      by (auto simp: Cons.IH col_entries_at Suc_diff_le nth_Cons')
  qed
qed

lemma set_col_entries:
  "set (col_entries k xs) = {(i, k', v). k' = k \<and> i < length xs \<and> v = xs ! i \<and> v \<noteq> 0}"
  by (auto simp: col_entries_def)

lemma set_frame_entries:
  "set (frame_entries j0 xss) =
     {(i, k, v). j0 \<le> k \<and> k < j0 + length xss \<and> i < length (xss ! (k - j0))
        \<and> v = xss ! (k - j0) ! i \<and> v \<noteq> 0}"
proof (induction xss arbitrary: j0)
  case Nil
  then show ?case by simp
next
  case (Cons xs xss)
  show ?case
    unfolding frame_entries.simps set_append Cons.IH set_col_entries
    by (auto simp: nth_Cons' Suc_diff_le split: if_splits)
qed

lemma distinct_col_entries:
  "distinct (map (\<lambda>(i, k, v). (i, k)) (col_entries k0 xs))"
  by (simp add: col_entries_def comp_def distinct_map inj_on_def)

lemma distinct_frame_entries:
  "distinct (map (\<lambda>(i, k, v). (i, k)) (frame_entries j0 xss))"
proof (induction xss arbitrary: j0)
  case Nil
  then show ?case by simp
next
  case (Cons xs xss)
  have "(\<lambda>(i, k, v). (i, k)) ` set (col_entries j0 xs)
          \<inter> (\<lambda>(i, k, v). (i, k)) ` set (frame_entries (Suc j0) xss) = {}"
    unfolding set_frame_entries set_col_entries by auto
  then show ?case
    by (simp add: Cons.IH distinct_col_entries)
qed

lemma bit_length_0 [simp]: "bit_length 0 = 0"
  by (simp add: bit_length.simps)

lemma bit_length_le: "n < 2 ^ k \<Longrightarrow> bit_length n \<le> k"
proof (induction k arbitrary: n)
  case 0
  then show ?case by simp
next
  case (Suc k)
  show ?case
  proof (cases "n = 0")
    case True
    then show ?thesis by simp
  next
    case False
    from Suc.prems have "n div 2 < 2 ^ k"
      by simp
    then have "bit_length (n div 2) \<le> k"
      by (rule Suc.IH)
    with False show ?thesis
      by (subst bit_length.simps) simp
  qed
qed

lemma float64_of_nat_exact:
  assumes "n \<le> 2 ^ 53"
  shows "float64_of_nat n = real n"
proof (cases "n = 2 ^ 53")
  case True
  then show ?thesis
    by (simp add: float64_of_nat_def round_half_even_def bit_length.simps)
next
  case False
  with assms have "n < 2 ^ 53"
    by simp
  then have "bit_length n - 53 = 0"
    using bit_length_le [of n 53] by simp
  then show ?thesis
    by (simp add: float64_of_nat_def round_half_even_def)
qed

lemma float64_of_int_exact:
  assumes "\<bar>i\<bar> \<le> 2 ^ 53"
  shows "float64_of_int i = real_of_int i"
proof (cases "i < 0")
  case True
  with assms have "nat (- i) \<le> 2 ^ 53"
    by (simp add: nat_le_iff)
  then show ?thesis
    using True by (simp add: float64_of_int_def float64_of_nat_exact)
next
  case False
  with assms have "nat i \<le> 2 ^ 53"
    by (simp add: nat_le_iff)
  then show ?thesis
    using False by (simp add: float64_of_int_def float64_of_nat_exact)
qed

lemma astype_float64_exact:
  "astype_float64 (Float64 x) = value_of (Float64 x)"
  "\<bar>i\<bar> \<le> 2 ^ 53 \<Longrightarrow> astype_float64 (Int64 i) = value_of (Int64 i)"
  by (simp_all add: float64_of_int_exact)

lemma float64_rounds_above_2_53: "float64_of_int 9007199254740993 = 9007199254740992"
  by (simp add: float64_of_int_def float64_of_nat_def round_half_even_def bit_length.simps)

lemma sparsify_result:
  assumes "cols df \<noteq> []"
  shows "\<exists>m. sparsify df = Inr m \<and> shape m = (nrows df, length (cols df))
           \<and> coo_entries m = frame_entries 0 (map (\<lambda>c. map astype_float64 (snd c)) (cols df))
           \<and> length (col m) = length (row m) \<and> length (data m) = length (row m)"
proof -
  let ?xss = "map (\<lambda>c. map astype_float64 (snd c)) (cols df)"
  let ?arrs = "map (\<lambda>xs. SparseArray xs 0) ?xss"
  have arrs: "map snd (s_cols (astype_sparse df 0)) = ?arrs"
    by (simp add: astype_sparse_def comp_def case_prod_unfold)
  have fill: "\<not> (\<exists>a \<in> set ?arrs. fill_value a \<noteq> 0)"
    by (auto simp: SparseArray_def)
  obtain rs cs ds where loop: "coo_columns 0 ?arrs = (rs, cs, ds)"
    by (cases "coo_columns 0 ?arrs") auto
  have "sparsify df = Inr \<lparr>shape = (nrows df, length (cols df)), row = rs, col = cs, data = ds\<rparr>"
    unfolding sparsify_def to_coo_def arrs using assms fill loop
    by (simp add: astype_sparse_def)
  moreover have "zip rs (zip cs ds) = frame_entries 0 ?xss"
    by (rule coo_columns_entries [OF loop])
  moreover have "length cs = length rs \<and> length ds = length rs"
    by (rule coo_columns_lengths [OF loop])
  ultimately show ?thesis
    by (simp add: coo_entries_def)
qed

lemma sparsify_no_columns: "cols df = [] \<Longrightarrow> sparsify df = Inl ValueError"
  by (simp add: sparsify_def to_coo_def astype_sparse_def)

lemma map_by_index: "map f xs = map (\<lambda>j. f (xs ! j)) [0..<length xs]"
  by (rule nth_equalityI) simp_all

lemma sparsify_cast:
  assumes "wf_dframe df" and "cols df \<noteq> []"
  shows "\<exists>m. sparsify df = Inr m
           \<and> shape m = (nrows df, length (cols df))
           \<and> todense m = map (map astype_float64) (to_numpy df)
           \<and> length (col m) = length (row m) \<and> length (data m) = length (row m)
           \<and> set (coo_entries m) =
               {(i, j, v). i < nrows df \<and> j < length (cols df)
                  \<and> v = astype_float64 (snd (cols df ! j) ! i) \<and> v \<noteq> 0}
           \<and> distinct (map (\<lambda>(i, j, v). (i, j)) (coo_entries m))"
proof -
  let ?xss = "map (\<lambda>c. map astype_float64 (snd c)) (cols df)"
  obtain m where m: "sparsify df = Inr m" "shape m = (nrows df, length (cols df))"
      "coo_entries m = frame_entries 0 ?xss"
      "length (col m) = length (row m)" "length (data m) = length (row m)"
    using sparsify_result [OF assms(2)] by blast
  have len: "length (snd (cols df ! j)) = nrows df" if "j < length (cols df)" for j
    using assms(1) that by (simp add: wf_dframe_def)
  have at: "coo_at m i j = astype_float64 (snd (cols df ! j) ! i)"
    if "i < nrows df" "j < length (cols df)" for i j
    using that len [of j] by (simp add: coo_at_def m(3) frame_entries_at)
  have "map (\<lambda>c. astype_float64 (snd c ! i)) (cols df) = map (\<lambda>j. coo_at m i j) [0..<length (cols df)]"
    if "i < nrows df" for i
    using that by (simp add: map_by_index [of _ "cols df"] at)
  then have dense: "todense m = map (map astype_float64) (to_numpy df)"
    unfolding todense_def to_numpy_def m(2) by (simp add: comp_def)
  have entries: "set (coo_entries m) =
      {(i, j, v). i < nrows df \<and> j < length (cols df)
         \<and> v = astype_float64 (snd (cols df ! j) ! i) \<and> v \<noteq> 0}"
    unfolding m(3) set_frame_entries using len by auto
  have positions: "distinct (map (\<lambda>(i, j, v). (i, j)) (coo_entries m))"
    unfolding m(3) by (rule distinct_frame_entries)
  show ?thesis
  proof (intro exI conjI)
    show "sparsify df = Inr m" by (rule m(1))
    show "shape m = (nrows df, length (cols df))" by (rule m(2))
    show "todense m = map (map astype_float64) (to_numpy df)" by (rule dense)
    show "length (col m) = length (row m)" by (rule m(4))
    show "length (data m) = length (row m)" by (rule m(5))
    show "set (coo_entries m) =
      {(i, j, v). i < nrows df \<and> j < length (cols df)
         \<and> v = astype_float64 (snd (cols df ! j) ! i) \<and> v \<noteq> 0}"
      by (rule entries)
    show "distinct (map (\<lambda>(i, j, v). (i, j)) (coo_entries m))" by (rule positions)
  qed
qed

text \<open>
  Claim C3, as the code has it. For every well-formed dense frame with at least one
  column and whose cells the cast to float64 leaves as they are (every float64 cell, and
  every integer of magnitude up to \<open>2^53\<close>, by \<open>astype_float64_exact\<close>), the sparsifier
  returns a COO matrix of the frame's shape whose densification is the frame's matrix,
  entry for entry. Its stored entries are exactly the non-zero cells of the frame, each
  once, at its own row and column with its own value; every other position densifies to
  zero. Without the condition on the cells the densification is the matrix of the cast
  cells (\<open>sparsify_cast\<close>).
\<close>

theorem sparsify_roundtrip:
  assumes "wf_dframe df" and "cols df \<noteq> []"
    and "\<forall>c \<in> set (cols df). \<forall>x \<in> set (snd c). astype_float64 x = value_of x"
  shows "\<exists>m. sparsify df = Inr m
           \<and> shape m = (nrows df, length (cols df))
           \<and> todense m = map (map value_of) (to_numpy df)
           \<and> length (col m) = length (row m) \<and> length (data m) = length (row m)
           \<and> set (coo_entries m) =
               {(i, j, v). i < nrows df \<and> j < length (cols df)
                  \<and> v = value_of (snd (cols df ! j) ! i) \<and> v \<noteq> 0}
           \<and> distinct (map (\<lambda>(i, j, v). (i, j)) (coo_entries m))"
proof -
  from sparsify_cast [OF assms(1,2)] obtain m where
    m: "sparsify df = Inr m" "shape m = (nrows df, length (cols df))"
       "todense m = map (map astype_float64) (to_numpy df)"
       "length (col m) = length (row m)" "length (data m) = length (row m)"
       "set (coo_entries m) =
          {(i, j, v). i < nrows df \<and> j < length (cols df)
             \<and> v = astype_float64 (snd (cols df ! j) ! i) \<and> v \<noteq> 0}"
       "distinct (map (\<lambda>(i, j, v). (i, j)) (coo_entries m))"
    by blast
  have exact: "astype_float64 (snd (cols df ! j) ! i) = value_of (snd (cols df ! j) ! i)"
    if "i < nrows df" "j < length (cols df)" for i j
  proof -
    from that(2) have c: "cols df ! j \<in> set (cols df)"
      by simp
    with assms(1) have "length (snd (cols df ! j)) = nrows df"
      by (simp add: wf_dframe_def)
    with that(1) have "snd (cols df ! j) ! i \<in> set (snd (cols df ! j))"
      by simp
    with assms(3) c show ?thesis
      by blast
  qed
  have "map (\<lambda>c. astype_float64 (snd c ! i)) (cols df) = map (\<lambda>c. value_of (snd c ! i)) (cols df)"
    if "i < nrows df" for i
    using that exact [of i] by (simp add: list_eq_iff_nth_eq)
  then have dense: "map (map astype_float64) (to_numpy df) = map (map value_of) (to_numpy df)"
    unfolding to_numpy_def by (simp add: comp_def)
  have entries: "{(i, j, v). i < nrows df \<and> j < length (cols df)
         \<and> v = astype_float64 (snd (cols df ! j) ! i) \<and> v \<noteq> 0}
      = {(i, j, v). i < nrows df \<and> j < length (cols df)
         \<and> v = value_of (snd (cols df ! j) ! i) \<and> v \<noteq> 0}"
    using exact by auto
  show ?thesis
  proof (intro exI conjI)
    show "sparsify df = Inr m" by (rule m(1))
    show "shape m = (nrows df, length (cols df))" by (rule m(2))
    show "todense m = map (map value_of) (to_numpy df)"
      using m(3) dense by simp
    show "length (col m) = length (row m)" by (rule m(4))
    show "length (data m) = length (row m)" by (rule m(5))
    show "set (coo_entries m) =
      {(i, j, v). i < nrows df \<and> j < length (cols df)
         \<and> v = value_of (snd (cols df ! j) ! i) \<and> v \<noteq> 0}"
      using m(6) entries by simp
    show "distinct (map (\<lambda>(i, j, v). (i, j)) (coo_entries m))" by (rule m(7))
  qed
qed

theorem sparsify_roundtrip_witness:
  "sparsify \<lparr>nrows = 2, cols = [(''crash'', [Float64 0, Float64 (3/2)]),
       (''make_Dix'', [Int64 1, Int64 0]), (''wing'', [Float64 0, Float64 0])]\<rparr>
     = Inr \<lparr>shape = (2, 3), row = [1, 0], col = [0, 1], data = [3/2, 1]\<rparr>
   \<and> todense \<lparr>shape = (2, 3), row = [1, 0], col = [0, 1], data = [3/2, 1]\<rparr>
     = [[0, 1, 0], [3/2, 0, 0]]
   \<and> map (map value_of) (to_numpy \<lparr>nrows = 2, cols = [(''crash'', [Float64 0, Float64 (3/2)]),
       (''make_Dix'', [Int64 1, Int64 0]), (''wing'', [Float64 0, Float64 0])]\<rparr>)
     = [[0, 1, 0], [3/2, 0, 0]]"
  using sparsify_roundtrip
    [of "\<lparr>nrows = 2, cols = [(''crash'', [Float64 0, Float64 (3/2)]),
       (''make_Dix'', [Int64 1, Int64 0]), (''wing'', [Float64 0, Float64 0])]\<rparr>"]
  by (simp add: sparsify_def to_coo_def astype_sparse_def SparseArray_def todense_def to_numpy_def
      coo_at_def coo_entries_def float64_of_int_exact
      upt_rec [of _ "numeral _"] upt_rec [of _ "Suc _"])

text \<open>
  Claim C3 as stated covers every dense feature matrix. A frame with no column makes
  \<open>to_coo\<close> raise \<^verbatim>\<open>ValueError\<close>, so no matrix is produced for it; and the one-cell frame
  holding the integer \<open>2^53 + 1\<close> comes back as \<open>2^53\<close>, the nearest float64, so its
  densification is not the original matrix.
\<close>

theorem sparsify_roundtrip_counterexample:
  "sparsify \<lparr>nrows = 1, cols = []\<rparr> = Inl ValueError
   \<and> sparsify \<lparr>nrows = 1, cols = [(''count'', [Int64 9007199254740993])]\<rparr>
     = Inr \<lparr>shape = (1, 1), row = [0], col = [0], data = [9007199254740992]\<rparr>
   \<and> todense \<lparr>shape = (1, 1), row = [0], col = [0], data = [9007199254740992]\<rparr>
     = [[9007199254740992]]
   \<and> map (map value_of) (to_numpy \<lparr>nrows = 1, cols = [(''count'', [Int64 9007199254740993])]\<rparr>)
     = [[9007199254740993]]
   \<and> todense \<lparr>shape = (1, 1), row = [0], col = [0], data = [9007199254740992]\<rparr>
     \<noteq> map (map value_of) (to_numpy \<lparr>nrows = 1, cols = [(''count'', [Int64 9007199254740993])]\<rparr>)"
  by (simp add: sparsify_def to_coo_def astype_sparse_def SparseArray_def todense_def to_numpy_def
      coo_at_def coo_entries_def float64_rounds_above_2_53)

section \<open>Properties of the model selector\<close>









lemma ParameterGrid_logreg_params:
  "ParameterGrid logreg_params =
     [\<lparr>penalty = L1, C = 1/100\<rparr>, \<lparr>penalty = L2, C = 1/100\<rparr>,
      \<lparr>penalty = L1, C = 1/10\<rparr>, \<lparr>penalty = L2, C = 1/10\<rparr>,
      \<lparr>penalty = L1, C = 1\<rparr>, \<lparr>penalty = L2, C = 1\<rparr>,
      \<lparr>penalty = L1, C = 10\<rparr>, \<lparr>penalty = L2, C = 10\<rparr>,
      \<lparr>penalty = L1, C = 100\<rparr>, \<lparr>penalty = L2, C = 100\<rparr>]"
  by (simp add: ParameterGrid_def logreg_params_def)










text \<open>
  The failure paths of the search. Labels of one class make every fit raise, so the
  search has no score to report and raises; a fold that holds out no row has the score
  NaN, and the search goes on.
\<close>

lemma single_class_fit_fails:
  assumes "set y \<subseteq> {c}"
  shows "LogisticRegression_fit solve p X y = Inl ValueError"
proof -
  have "sort (remdups y) = sorted_list_of_set (set y)"
    by (simp add: sorted_list_of_set_sort_remdups)
  moreover from assms have "set y = {} \<or> set y = {c}"
    by (rule subset_singletonD)
  ultimately have "sort (remdups y) = [] \<or> sort (remdups y) = [c]"
    by auto
  then show ?thesis
    by (auto simp: LogisticRegression_fit_def check_array_def split: sum.splits list.splits)
qed

lemma empty_fold_scores_nan:
  "fit_and_score solve p X y (train, []) \<in> {FitFailed, ScoreFailed}"
  by (simp add: fit_and_score_def score_def predict_def check_array_def take_rows_def
      split: sum.splits)

lemma single_class_search_fails:
  assumes "set y_train \<subseteq> {c}"
  shows "GridSearchCV_fit solve cv logreg_params X_train y_train \<in> {Inl ValueError, Inl IndexError}"
proof -
  have fit: "fit_and_score solve p X_train y_train part = FitFailed"
    if "\<forall>i \<in> set (fst part). i < length y_train" for p part
  proof -
    have "y_train ! i = c" if "i \<in> set (fst part)" for i
    proof -
      from that \<open>\<forall>i \<in> set (fst part). i < length y_train\<close> have "y_train ! i \<in> set y_train"
        by simp
      with assms show ?thesis
        by auto
    qed
    then have "set (take_rows y_train (fst part)) \<subseteq> {c}"
      by (auto simp: take_rows_def)
    from single_class_fit_fails [OF this] show ?thesis
      by (cases part) (simp add: fit_and_score_def)
  qed
  show ?thesis
  proof (cases "length X_train \<noteq> length y_train \<or> cv = []
      \<or> (\<exists>part \<in> set cv. \<exists>i \<in> set (fst part) \<union> set (snd part). length X_train \<le> i)")
    case True
    then show ?thesis
      by (auto simp: GridSearchCV_fit_def Let_def)
  next
    case False
    then have "\<forall>part \<in> set cv. \<forall>i \<in> set (fst part). i < length y_train"
      by (metis UnI1 not_le)
    with fit have "\<forall>p. \<forall>part \<in> set cv. fit_and_score solve p X_train y_train part = FitFailed"
      by blast
    then have "\<forall>rs \<in> set (map (\<lambda>p. map (fit_and_score solve p X_train y_train) cv)
        (ParameterGrid logreg_params)). \<forall>r \<in> set rs. r = FitFailed"
      by auto
    then show ?thesis
      unfolding GridSearchCV_fit_def Let_def by simp
  qed
qed


text \<open>
  On the small data set the configuration \<open>(l2, 1)\<close>, the sixth grid point, is the only one
  to score 1; the estimator refitted on the four training rows labels all of them right
  and one of the two test rows.
\<close>

lemma toy_selection:
  "model_selector toy_fit toy_cv [[1, 0, 0], [0, 1, 0], [1/2, 0, 0], [0, 0, 1]] [1, 0, 1, 0]
       [[1, 0, 0], [1, 0, 1/2]] [1, 0]
     = Inr (\<lparr>cv_results =
               [(\<lparr>penalty = L1, C = 1/100\<rparr>, Some (1/2)), (\<lparr>penalty = L2, C = 1/100\<rparr>, Some (1/2)),
                (\<lparr>penalty = L1, C = 1/10\<rparr>, Some (1/2)), (\<lparr>penalty = L2, C = 1/10\<rparr>, Some (1/2)),
                (\<lparr>penalty = L1, C = 1\<rparr>, Some (1/2)), (\<lparr>penalty = L2, C = 1\<rparr>, Some 1),
                (\<lparr>penalty = L1, C = 10\<rparr>, Some (1/2)), (\<lparr>penalty = L2, C = 10\<rparr>, Some (1/2)),
                (\<lparr>penalty = L1, C = 100\<rparr>, Some (1/2)), (\<lparr>penalty = L2, C = 100\<rparr>, Some (1/2))],
             best_index = 5, best_params = \<lparr>penalty = L2, C = 1\<rparr>, best_score = Some 1,
             best_estimator = \<lparr>classes = (0, 1), coef = [3/2, - 1, - 1], intercept = 0\<rparr>\<rparr>,
            1, 1/2)"
  by (simp add: model_selector_def GridSearchCV_fit_def ParameterGrid_logreg_params Let_def
      LogisticRegression_fit_def check_array_def fit_and_score_def mean_test_score_def
      rank_argmin_def map_filter_simps score_def accuracy_score_def predict_def
      decision_function_def take_rows_def toy_fit_def toy_cv_def
      upt_rec [of _ "numeral _"] upt_rec [of _ "Suc _"])


section \<open>Properties of the weight inspector\<close>

lemma parameter_weight_df_rows:
  "length coefs = length columns \<Longrightarrow>
     parameter_weight_df coefs columns = Inr \<lparr>w_column = StrLabel ''Weight'', w_rows = zip columns coefs\<rparr>"
  by (simp add: parameter_weight_df_def DataFrame_def set_columns_def)

lemma descending_sorted_map: "descending rows = sorted (map (\<lambda>r. - snd r) rows)"
  by (simp add: descending_def sorted_map)

lemma descending_stable: "descending (spec_stable_desc rows)"
  by (simp add: descending_sorted_map spec_stable_desc_def)

lemma mset_stable: "mset (spec_stable_desc rows) = mset rows"
  by (simp add: spec_stable_desc_def)

lemma sort_values_desc_stable:
  "w_column df = StrLabel by \<Longrightarrow>
     sort_values_desc df by (Inr (df\<lparr>w_rows := spec_stable_desc (w_rows df)\<rparr>))"
  by (simp add: sort_values_desc_def descending_stable mset_stable)

lemma filter_key_single:
  "distinct (map f xs) \<Longrightarrow> k \<in> set xs \<Longrightarrow> filter (\<lambda>x. f k = f x) xs = [k]"
proof (induction xs)
  case Nil
  then show ?case by simp
next
  case (Cons x xs)
  show ?case
  proof (cases "k = x")
    case True
    have "filter (\<lambda>y. f x = f y) xs = []"
      using Cons.prems(1) by (auto simp: filter_empty_conv)
    with True show ?thesis by simp
  next
    case False
    from Cons.prems(2) False have member: "k \<in> set xs"
      by simp
    from Cons.prems(1) have rest: "distinct (map f xs)" and fresh: "f x \<notin> f ` set xs"
      by simp_all
    from member fresh have "f k \<noteq> f x"
      by (metis imageI)
    with Cons.IH [OF rest member] show ?thesis
      by simp
  qed
qed

lemma descending_unique:
  assumes "mset ys = mset rows" and "descending ys" and "distinct (map snd rows)"
  shows "ys = spec_stable_desc rows"
proof -
  let ?f = "\<lambda>r::string \<times> real. - snd r"
  have inj: "inj (uminus :: real \<Rightarrow> real)"
    by (simp add: inj_on_def)
  have "distinct (map ?f rows)"
    using assms(3) distinct_map [of uminus "map snd rows"] inj
    by (simp add: comp_def inj_on_def distinct_map)
  moreover have "mset (map ?f ys) = mset (map ?f rows)"
    using assms(1) by simp
  ultimately have dist: "distinct (map ?f ys)"
    using mset_eq_imp_distinct_iff by blast
  have set_eq: "set ys = set rows"
    using assms(1) by (rule mset_eq_setD)
  have "sort_key ?f rows = ys"
  proof (rule properties_for_sort_key)
    show "mset ys = mset rows" by (rule assms(1))
    show "sorted (map ?f ys)"
      using assms(2) by (simp add: descending_sorted_map)
    fix k assume k: "k \<in> set ys"
    have "filter (\<lambda>x. ?f k = ?f x) ys = [k]"
      by (rule filter_key_single [OF dist k])
    moreover have "filter (\<lambda>x. ?f k = ?f x) rows = [k]"
      by (rule filter_key_single [OF \<open>distinct (map ?f rows)\<close>]) (use k set_eq in simp)
    ultimately show "filter (\<lambda>x. ?f k = ?f x) ys = filter (\<lambda>x. ?f k = ?f x) rows"
      by simp
  qed
  then show ?thesis
    by (simp add: spec_stable_desc_def)
qed

lemma descending_take_drop:
  assumes "descending rows"
  shows "descending (take n rows)" and "\<forall>a \<in> set (take n rows). \<forall>b \<in> set (drop n rows). snd b \<le> snd a"
proof -
  have "descending (take n rows @ drop n rows)"
    using assms by simp
  then show "descending (take n rows)"
    and "\<forall>a \<in> set (take n rows). \<forall>b \<in> set (drop n rows). snd b \<le> snd a"
    unfolding descending_def sorted_wrt_append by auto
qed

text \<open>
  Claim C4, as the code has it. For a weight vector with one weight per column, whatever
  \<^verbatim>\<open>sort_values\<close> returns, the cell displays a frame with column \<^verbatim>\<open>Weight\<close> holding the
  first \<open>min 30 n\<close> rows of a rearrangement of the (feature name, weight) rows: the weights
  never increase down the display, and no row left out has a larger weight than a row
  displayed. When the weights are pairwise different the display is the first 30 rows of
  the stable descending order; the order among rows of equal weight is not determined.
\<close>

theorem weight_inspector_descending:
  assumes "length coefs = length columns"
    and "weight_inspector coefs columns res shown"
  shows "\<exists>sorted_df top. res = Inr sorted_df \<and> shown = Inr top
           \<and> w_column top = StrLabel ''Weight''
           \<and> w_rows top = take 30 (w_rows sorted_df)
           \<and> mset (w_rows sorted_df) = mset (zip columns coefs)
           \<and> length (w_rows top) = min 30 (length columns)
           \<and> descending (w_rows top)
           \<and> (\<forall>a \<in> set (w_rows top). \<forall>b \<in> set (drop 30 (w_rows sorted_df)). snd b \<le> snd a)
           \<and> (distinct coefs \<longrightarrow> w_rows top = take 30 (spec_stable_desc (zip columns coefs)))"
proof -
  let ?df = "\<lparr>w_column = StrLabel ''Weight'', w_rows = zip columns coefs\<rparr>"
  have sorted_res: "sort_values_desc ?df ''Weight'' res" and shown: "shown = map_sum id (head 30) res"
    using assms by (simp_all add: weight_inspector_def parameter_weight_df_rows)
  from sorted_res obtain s where res: "res = Inr s"
    and label: "w_column s = StrLabel ''Weight''"
    and perm: "mset (w_rows s) = mset (zip columns coefs)"
    and desc: "descending (w_rows s)"
    by (cases res) (auto simp: sort_values_desc_def)
  have top: "shown = Inr (head 30 s)"
    using shown res by simp
  have len: "length (w_rows s) = length columns"
    using mset_eq_length [OF perm] assms(1) by simp
  have unique: "w_rows s = spec_stable_desc (zip columns coefs)" if "distinct coefs"
    using perm desc that assms(1) by (intro descending_unique) simp_all
  show ?thesis
  proof (intro exI conjI)
    show "res = Inr s" by (rule res)
    show "shown = Inr (head 30 s)" by (rule top)
    show "w_column (head 30 s) = StrLabel ''Weight''"
      using label by (simp add: head_def)
    show "w_rows (head 30 s) = take 30 (w_rows s)"
      by (simp add: head_def)
    show "mset (w_rows s) = mset (zip columns coefs)" by (rule perm)
    show "length (w_rows (head 30 s)) = min 30 (length columns)"
      using len by (simp add: head_def min.commute)
    show "descending (w_rows (head 30 s))"
      using descending_take_drop(1) [OF desc] by (simp add: head_def)
    show "\<forall>a \<in> set (w_rows (head 30 s)). \<forall>b \<in> set (drop 30 (w_rows s)). snd b \<le> snd a"
      using descending_take_drop(2) [OF desc] by (simp add: head_def)
    show "distinct coefs \<longrightarrow> w_rows (head 30 s) = take 30 (spec_stable_desc (zip columns coefs))"
      using unique by (simp add: head_def)
  qed
qed

theorem weight_inspector_descending_witness:
  "weight_inspector [1/2, 2, 2, -1] [''crash'', ''fire'', ''wing'', ''taxi'']
     (Inr \<lparr>w_column = StrLabel ''Weight'',
           w_rows = [(''wing'', 2), (''fire'', 2), (''crash'', 1/2), (''taxi'', -1)]\<rparr>)
     (Inr \<lparr>w_column = StrLabel ''Weight'',
           w_rows = [(''wing'', 2), (''fire'', 2), (''crash'', 1/2), (''taxi'', -1)]\<rparr>)
   \<and> descending [(''wing'', 2), (''fire'', 2), (''crash'', 1/2), (''taxi'', -1)]"
  using weight_inspector_descending
    [of "[1/2, 2, 2, -1]" "[''crash'', ''fire'', ''wing'', ''taxi'']"
        "Inr \<lparr>w_column = StrLabel ''Weight'',
           w_rows = [(''wing'', 2), (''fire'', 2), (''crash'', 1/2), (''taxi'', -1)]\<rparr>"
        "Inr \<lparr>w_column = StrLabel ''Weight'',
           w_rows = [(''wing'', 2), (''fire'', 2), (''crash'', 1/2), (''taxi'', -1)]\<rparr>"]
  by (simp add: weight_inspector_def parameter_weight_df_rows sort_values_desc_def descending_def
      head_def)

text \<open>
  Claim C4 as stated asks that rows of equal weight keep the order of the columns. With
  eighteen features of weight 0 (what an \<open>l1\<close> penalty leaves of most features), the display
  \<open>tied_display\<close>, which starts \<^verbatim>\<open>w00, w01, w16, w15\<close>, is a result the unstable sort may
  return, and it is not the column order.
\<close>

theorem weight_inspector_ties_counterexample:
  "weight_inspector (replicate 18 0) tied_columns
     (Inr \<lparr>w_column = StrLabel ''Weight'', w_rows = tied_display\<rparr>)
     (Inr \<lparr>w_column = StrLabel ''Weight'', w_rows = tied_display\<rparr>)
   \<and> tied_display \<noteq> take 30 (spec_stable_desc (zip tied_columns (replicate 18 0)))"
  by (simp add: weight_inspector_def parameter_weight_df_rows sort_values_desc_def descending_def
      head_def spec_stable_desc_def tied_columns_def tied_display_def numeral_eq_Suc)

section \<open>Frame properties of the cells\<close>

lemma extends_refl: "extends s s"
  by (simp add: extends_def)

lemma extends_trans:
  assumes "extends s s1" and "extends s1 s2"
  shows "extends s s2"
proof -
  have "heap s2 ! a = heap s ! a" if "a < length (heap s)" for a
  proof -
    from that assms(1) have "a < length (heap s1)" and "heap s1 ! a = heap s ! a"
      by (simp_all add: extends_def)
    with assms(2) show ?thesis
      by (simp add: extends_def)
  qed
  with assms show ?thesis
    by (simp add: extends_def)
qed

lemma extends_assign:
  assumes "name \<noteq> ''X_train_tfidf''" and "name \<noteq> ''X_test_tfidf''"
  shows "extends s (assign name v s)"
  using assms by (simp add: extends_def assign_def nth_append)

lemma extends_lookup:
  assumes "extends s s'" and "lookup s name = Inr v"
    and "name = ''X_train_tfidf'' \<or> name = ''X_test_tfidf''"
  shows "lookup s' name = Inr v"
proof -
  from assms(2) obtain a where a: "env s name = Some a" "a < length (heap s)" "heap s ! a = v"
    by (cases "env s name") (simp_all add: lookup_def split: if_splits)
  from assms(1,3) a(1) have env': "env s' name = Some a"
    by (auto simp: extends_def)
  from assms(1) a(2) have "a < length (heap s')" and "heap s' ! a = heap s ! a"
    by (simp_all add: extends_def)
  with env' a(3) show ?thesis
    by (simp add: lookup_def)
qed

lemma lookup_assign_same: "lookup (assign name v s) name = Inr v"
  by (simp add: lookup_def assign_def)

lemma env_assign: "env (assign name v s) name = Some (length (heap s))"
  by (simp add: assign_def)

lemma mutate_assign: "mutate name v (assign name v0 s) = Inr (assign name v s)"
  by (simp add: mutate_def assign_def)

lemma sparsify_var_Inr:
  assumes "sparsify_var src dst s = Inr s'"
  shows "\<exists>df m. lookup s src = Inr (DenseFrame df) \<and> sparsify df = Inr m
           \<and> s' = assign dst (CooMatrix m) s"
  using assms by (auto simp: sparsify_var_def split: sum.splits obj.splits)

lemma binarize_var_Inr:
  assumes "binarize_var name s = Inr s'"
  shows "\<exists>y ys. lookup s name = Inr (LabelFrame y) \<and> binarize y = Inr ys
           \<and> s' = assign name (IntSeries ys) s"
  using assms by (auto simp: binarize_var_def split: sum.splits obj.splits)

lemma cell_sparsify_Inr:
  assumes "cell_sparsify s = Inr s'"
  shows "\<exists>X m s1 X' m'. lookup s ''X_train_tfidf'' = Inr (DenseFrame X) \<and> sparsify X = Inr m
           \<and> s1 = assign ''X_train_sparse'' (CooMatrix m) s
           \<and> lookup s1 ''X_test_tfidf'' = Inr (DenseFrame X') \<and> sparsify X' = Inr m'
           \<and> s' = assign ''X_test_sparse'' (CooMatrix m') s1"
proof -
  from assms obtain s1 where s1: "sparsify_var ''X_train_tfidf'' ''X_train_sparse'' s = Inr s1"
      and s': "sparsify_var ''X_test_tfidf'' ''X_test_sparse'' s1 = Inr s'"
    by (auto simp: cell_sparsify_def split: sum.splits)
  from sparsify_var_Inr [OF s1] sparsify_var_Inr [OF s'] show ?thesis
    by blast
qed

lemma cell_binarize_Inr:
  assumes "cell_binarize s = Inr s'"
  shows "\<exists>ys s1 ys'. s1 = assign ''y_train'' (IntSeries ys) s
           \<and> s' = assign ''y_test'' (IntSeries ys') s1"
proof -
  from assms obtain s1 where s1: "binarize_var ''y_train'' s = Inr s1"
      and s': "binarize_var ''y_test'' s1 = Inr s'"
    by (auto simp: cell_binarize_def split: sum.splits)
  from binarize_var_Inr [OF s1] binarize_var_Inr [OF s'] show ?thesis
    by blast
qed

lemma cell_gridsearch_Inr:
  assumes "cell_gridsearch fit cv s = Inr (s', train_accuracy, test_accuracy)"
  shows "\<exists>g. s' = assign ''logreg_grid'' (GridSearchCV (Some g))
                   (assign ''logreg_params'' (ParamDict logreg_params) s)"
  using assms unfolding cell_gridsearch_def Let_def
  by (auto simp: mutate_assign split: sum.splits prod.splits)

lemma cell_weights_Inr:
  assumes "cell_weights s = Inr s'"
  shows "\<exists>g X w. lookup s ''logreg_grid'' = Inr (GridSearchCV (Some g))
           \<and> lookup s ''X_train_tfidf'' = Inr (DenseFrame X)
           \<and> parameter_weight_df (coef (best_estimator g)) (map fst (cols X)) = Inr w
           \<and> s' = assign ''parameter_weight_df'' (WeightFrame w) s"
proof -
  from assms obtain g X df w where
    grid: "lookup s ''logreg_grid'' = Inr (GridSearchCV (Some g))" and
    dense: "lookup s ''X_train_tfidf'' = Inr (DenseFrame X)" and
    df: "DataFrame (coef (best_estimator g)) (map fst (cols X)) = Inr df" and
    w: "set_columns df [''Weight''] = Inr w" and
    s': "s' = assign ''parameter_weight_df'' (WeightFrame w) s"
    unfolding cell_weights_def Let_def
    by (auto simp: mutate_assign split: sum.splits obj.splits option.splits)
  from df w have "parameter_weight_df (coef (best_estimator g)) (map fst (cols X)) = Inr w"
    by (simp add: parameter_weight_df_def)
  with grid dense s' show ?thesis
    by blast
qed

lemma length_todense: "length (todense m) = fst (shape m)"
  by (simp add: todense_def)

lemma todense_Nil: "todense m = [] \<longleftrightarrow> fst (shape m) = 0"
  by (simp add: todense_def)

lemma run_cells_frame:
  assumes "run_cells fit cv s = Inr (s', printed)"
  shows "extends s s'
    \<and> (\<exists>X X' m m' g w. lookup s ''X_train_tfidf'' = Inr (DenseFrame X)
          \<and> lookup s' ''X_train_tfidf'' = Inr (DenseFrame X)
          \<and> lookup s ''X_test_tfidf'' = Inr (DenseFrame X')
          \<and> lookup s' ''X_test_tfidf'' = Inr (DenseFrame X')
          \<and> env s' ''X_train_sparse'' = Some (length (heap s))
          \<and> env s' ''X_test_sparse'' = Some (Suc (length (heap s)))
          \<and> lookup s' ''X_train_sparse'' = Inr (CooMatrix m) \<and> sparsify X = Inr m
          \<and> lookup s' ''X_test_sparse'' = Inr (CooMatrix m') \<and> sparsify X' = Inr m'
          \<and> lookup s' ''logreg_grid'' = Inr (GridSearchCV (Some g))
          \<and> lookup s' ''parameter_weight_df'' = Inr (WeightFrame w)
          \<and> w_rows w = zip (map fst (cols X)) (coef (best_estimator g)))"
proof -
  from assms obtain s1 s2 s3 baseline_accuracy train_accuracy test_accuracy where
    c1: "cell_sparsify s = Inr s1" and
    c2: "cell_binarize s1 = Inr s2" and
    c4: "cell_gridsearch fit cv s2 = Inr (s3, train_accuracy, test_accuracy)" and
    c5: "cell_weights s3 = Inr s'"
    unfolding run_cells_def by (auto split: sum.splits prod.splits)
  from cell_sparsify_Inr [OF c1] obtain X m s0 X' m' where
    X: "lookup s ''X_train_tfidf'' = Inr (DenseFrame X)" and m: "sparsify X = Inr m" and
    s0: "s0 = assign ''X_train_sparse'' (CooMatrix m) s" and
    X'0: "lookup s0 ''X_test_tfidf'' = Inr (DenseFrame X')" and m': "sparsify X' = Inr m'" and
    s1: "s1 = assign ''X_test_sparse'' (CooMatrix m') s0"
    by blast
  from cell_binarize_Inr [OF c2] obtain ys t1 ys' where
    t1: "t1 = assign ''y_train'' (IntSeries ys) s1" and
    s2: "s2 = assign ''y_test'' (IntSeries ys') t1"
    by blast
  from cell_gridsearch_Inr [OF c4] obtain g where
    s3: "s3 = assign ''logreg_grid'' (GridSearchCV (Some g))
                (assign ''logreg_params'' (ParamDict logreg_params) s2)"
    by blast
  from cell_weights_Inr [OF c5] obtain g' X3 w where
    grid: "lookup s3 ''logreg_grid'' = Inr (GridSearchCV (Some g'))" and
    X3: "lookup s3 ''X_train_tfidf'' = Inr (DenseFrame X3)" and
    w: "parameter_weight_df (coef (best_estimator g')) (map fst (cols X3)) = Inr w" and
    s': "s' = assign ''parameter_weight_df'' (WeightFrame w) s3"
    by blast
  have e0: "extends s s0"
    unfolding s0 by (rule extends_assign) simp_all
  have e1: "extends s s1"
    unfolding s1 by (rule extends_trans [OF e0]) (rule extends_assign, simp_all)
  have "extends s1 s2"
    unfolding s2 t1 by (rule extends_trans [OF extends_assign extends_assign]) simp_all
  with e1 have e2: "extends s s2"
    by (rule extends_trans)
  have "extends s2 s3"
    unfolding s3 by (rule extends_trans [OF extends_assign extends_assign]) simp_all
  with e2 have e3: "extends s s3"
    by (rule extends_trans)
  have "extends s3 s'"
    unfolding s' by (rule extends_assign) simp_all
  with e3 have e: "extends s s'"
    by (rule extends_trans)
  have X_end: "lookup s' ''X_train_tfidf'' = Inr (DenseFrame X)"
    by (rule extends_lookup [OF e X]) simp
  have "lookup s3 ''X_train_tfidf'' = Inr (DenseFrame X)"
    by (rule extends_lookup [OF e3 X]) simp
  with X3 have X3_eq: "X3 = X"
    by simp
  have X': "lookup s ''X_test_tfidf'' = Inr (DenseFrame X')"
    using X'0 unfolding s0
    by (simp add: lookup_def assign_def nth_append split: option.splits if_splits)
  have X'_end: "lookup s' ''X_test_tfidf'' = Inr (DenseFrame X')"
    by (rule extends_lookup [OF e X']) simp
  have a: "env s' ''X_train_sparse'' = Some (length (heap s))"
    unfolding s' s3 s2 t1 s1 s0 by (simp add: assign_def)
  have b: "env s' ''X_test_sparse'' = Some (Suc (length (heap s)))"
    unfolding s' s3 s2 t1 s1 s0 by (simp add: assign_def)
  have sparse: "lookup s' ''X_train_sparse'' = Inr (CooMatrix m)"
    unfolding s' s3 s2 t1 s1 s0 by (simp add: lookup_def assign_def nth_append)
  have sparse': "lookup s' ''X_test_sparse'' = Inr (CooMatrix m')"
    unfolding s' s3 s2 t1 s1 s0 by (simp add: lookup_def assign_def nth_append)
  have grid_end: "lookup s' ''logreg_grid'' = Inr (GridSearchCV (Some g))"
    unfolding s' s3 by (simp add: lookup_def assign_def nth_append)
  have "g' = g"
    using grid unfolding s3 by (simp add: lookup_assign_same)
  have weights_end: "lookup s' ''parameter_weight_df'' = Inr (WeightFrame w)"
    unfolding s' by (rule lookup_assign_same)
  have "length (coef (best_estimator g)) = length (cols X)"
    using w unfolding \<open>g' = g\<close> X3_eq
    by (simp add: parameter_weight_df_def DataFrame_def split: if_splits)
  then have rows: "w_rows w = zip (map fst (cols X)) (coef (best_estimator g))"
    using w unfolding \<open>g' = g\<close> X3_eq by (auto simp: parameter_weight_df_rows)
  from e X X_end X' X'_end a b sparse m sparse' m' grid_end weights_end rows show ?thesis
    by (intro conjI exI [of _ X] exI [of _ X'] exI [of _ g] exI [of _ w] exI [of _ m] exI [of _ m'])
      simp_all
qed

lemma lookup_cell_load:
  "lookup (cell_load train test train_severity test_severity \<lparr>heap = [], env = Map.empty\<rparr>)
      ''X_train_tfidf'' = Inr (DenseFrame train)"
  "lookup (cell_load train test train_severity test_severity \<lparr>heap = [], env = Map.empty\<rparr>)
      ''X_test_tfidf'' = Inr (DenseFrame test)"
  "length (heap (cell_load train test train_severity test_severity \<lparr>heap = [], env = Map.empty\<rparr>)) = 4"
  "env (cell_load train test train_severity test_severity \<lparr>heap = [], env = Map.empty\<rparr>)
      ''X_train_tfidf'' = Some 0"
  "env (cell_load train test train_severity test_severity \<lparr>heap = [], env = Map.empty\<rparr>)
      ''X_test_tfidf'' = Some 1"
  by (simp_all add: cell_load_def lookup_def assign_def)

text \<open>
  Claim C9. When the notebook runs to its end, the two dense feature frames are still
  bound to the addresses the loader gave them (0 and 1) and the objects there are the
  frames as loaded; the sparse matrices are new objects at other addresses (4 and 5), the
  results of the sparsifier on the loaded frames; and the weight frame built by the last
  cell pairs the fitted weights with the column names of the training frame as loaded, in
  their order.
\<close>

theorem dense_frames_unchanged:
  assumes "run_notebook fit cv train test train_severity test_severity = Inr (s, printed)"
  shows "env s ''X_train_tfidf'' = Some 0 \<and> heap s ! 0 = DenseFrame train
    \<and> env s ''X_test_tfidf'' = Some 1 \<and> heap s ! 1 = DenseFrame test
    \<and> lookup s ''X_train_tfidf'' = Inr (DenseFrame train)
    \<and> lookup s ''X_test_tfidf'' = Inr (DenseFrame test)
    \<and> (\<exists>m m'. env s ''X_train_sparse'' = Some 4 \<and> lookup s ''X_train_sparse'' = Inr (CooMatrix m)
          \<and> sparsify train = Inr m
          \<and> env s ''X_test_sparse'' = Some 5 \<and> lookup s ''X_test_sparse'' = Inr (CooMatrix m')
          \<and> sparsify test = Inr m')
    \<and> (\<exists>g w. lookup s ''logreg_grid'' = Inr (GridSearchCV (Some g))
          \<and> lookup s ''parameter_weight_df'' = Inr (WeightFrame w)
          \<and> w_rows w = zip (map fst (cols train)) (coef (best_estimator g)))"
proof -
  let ?s0 = "cell_load train test train_severity test_severity \<lparr>heap = [], env = Map.empty\<rparr>"
  from assms have run: "run_cells fit cv ?s0 = Inr (s, printed)"
    by (simp add: run_notebook_def)
  from run_cells_frame [OF run] obtain X X' m m' g w where
    e: "extends ?s0 s" and
    X: "lookup ?s0 ''X_train_tfidf'' = Inr (DenseFrame X)" and
    X_end: "lookup s ''X_train_tfidf'' = Inr (DenseFrame X)" and
    X': "lookup ?s0 ''X_test_tfidf'' = Inr (DenseFrame X')" and
    X'_end: "lookup s ''X_test_tfidf'' = Inr (DenseFrame X')" and
    a: "env s ''X_train_sparse'' = Some (length (heap ?s0))" and
    b: "env s ''X_test_sparse'' = Some (Suc (length (heap ?s0)))" and
    m: "lookup s ''X_train_sparse'' = Inr (CooMatrix m)" "sparsify X = Inr m" and
    m': "lookup s ''X_test_sparse'' = Inr (CooMatrix m')" "sparsify X' = Inr m'" and
    g: "lookup s ''logreg_grid'' = Inr (GridSearchCV (Some g))" and
    w: "lookup s ''parameter_weight_df'' = Inr (WeightFrame w)"
       "w_rows w = zip (map fst (cols X)) (coef (best_estimator g))"
    by blast
  from X have [simp]: "X = train"
    by (simp add: lookup_cell_load)
  from X' have [simp]: "X' = test"
    by (simp add: lookup_cell_load)
  from e have env0: "env s ''X_train_tfidf'' = Some 0" and env1: "env s ''X_test_tfidf'' = Some 1"
    by (simp_all add: extends_def lookup_cell_load)
  from X_end env0 have h0: "heap s ! 0 = DenseFrame train"
    by (simp add: lookup_def split: if_splits)
  from X'_end env1 have h1: "heap s ! 1 = DenseFrame test"
    by (simp add: lookup_def split: if_splits)
  from a b have a4: "env s ''X_train_sparse'' = Some 4" and b5: "env s ''X_test_sparse'' = Some 5"
    by (simp_all add: lookup_cell_load)
  from env0 h0 env1 h1 X_end X'_end a4 b5 m m' g w show ?thesis
    by (intro conjI exI [of _ m] exI [of _ m'] exI [of _ g] exI [of _ w]) simp_all
qed

lemma toy_sparse:
  "sparsify toy_train = Inr \<lparr>shape = (4, 3), row = [0, 2, 1, 3], col = [0, 0, 1, 2],
                               data = [1, 1/2, 1, 1]\<rparr>"
  "sparsify toy_test = Inr \<lparr>shape = (2, 3), row = [0, 1, 1], col = [0, 0, 2],
                              data = [1, 1, 1/2]\<rparr>"
  by (simp_all add: sparsify_def to_coo_def astype_sparse_def SparseArray_def
      toy_train_def toy_test_def upt_rec [of _ "numeral _"] upt_rec [of _ "Suc _"])

lemma toy_dense:
  "todense \<lparr>shape = (4, 3), row = [0, 2, Suc 0, 3], col = [0, 0, Suc 0, 2], data = [1, 1/2, 1, 1]\<rparr>
     = [[1, 0, 0], [0, 1, 0], [1/2, 0, 0], [0, 0, 1]]"
  "todense \<lparr>shape = (2, 3), row = [0, Suc 0, Suc 0], col = [0, 0, 2], data = [1, 1, 1/2]\<rparr>
     = [[1, 0, 0], [1, 0, 1/2]]"
  by (simp_all add: todense_def coo_at_def coo_entries_def
      upt_rec [of _ "numeral _"] upt_rec [of _ "Suc _"])

lemma toy_columns:
  "length (cols toy_train) = 3" "map fst (cols toy_train) = [''crash'', ''fire'', ''wing'']"
  by (simp_all add: toy_train_def)

lemma toy_run:
  "\<exists>r. run_notebook toy_fit toy_cv toy_train toy_test toy_train_severity toy_test_severity = Inr r"
  by (simp add: run_notebook_def run_cells_def cell_load_def cell_sparsify_def sparsify_var_def
      assign_def lookup_def mutate_def toy_sparse toy_dense toy_selection
      cell_binarize_def binarize_var_def binarize_column cell_baseline_def baseline_class0
      cell_gridsearch_def get_matrix_def get_series_def
      cell_weights_def DataFrame_def set_columns_def
      toy_columns toy_train_severity_def toy_test_severity_def)

theorem dense_frames_unchanged_witness:
  "\<exists>s printed.
     run_notebook toy_fit toy_cv toy_train toy_test toy_train_severity toy_test_severity = Inr (s, printed)
     \<and> heap s ! 0 = DenseFrame toy_train \<and> heap s ! 1 = DenseFrame toy_test
     \<and> lookup s ''X_train_tfidf'' = Inr (DenseFrame toy_train)
     \<and> lookup s ''X_test_tfidf'' = Inr (DenseFrame toy_test)"
proof -
  from toy_run obtain s printed where
    run: "run_notebook toy_fit toy_cv toy_train toy_test toy_train_severity toy_test_severity
            = Inr (s, printed)"
    by auto
  from dense_frames_unchanged [OF run] run show ?thesis
    by blast
qed

text \<open>
  The example of the specification: the labels \<^verbatim>\<open>Fatal, Minor, Fatal, Minor\<close> binarize to
  \<open>[1, 0, 1, 0]\<close>, whose baseline is one half.
\<close>

lemma toy_labels:
  "binarize toy_train_severity = Inr [1, 0, 1, 0] \<and> baseline [1, 0, 1, 0] = Inr (1 / 2)"
  by (simp add: toy_train_severity_def binarize_column baseline_class0)

end

